theory Spec2Isabelle
  imports Complex_Main
begin

section \<open>Python values and failures\<close>

text \<open>
  Python floats are modelled as reals: rounding, overflow and the infinities are outside
  the model. Every place where the source can raise is a branch that returns \<open>Inl\<close>
  of the exception. \<open>ZeroDivisionError\<close> and \<open>ValueError\<close> are the built-in
  exceptions the arithmetic of the source raises. \<open>InvalidParameterError\<close> and
  \<open>UnsupportedOptionKindError\<close> are the error kinds the specification names; no
  function of the source constructs them.
\<close>

datatype error =
    ZeroDivisionError
  | ValueError
  | InvalidParameterError
  | UnsupportedOptionKindError

text \<open>The float division \<open>a / b\<close>: raises \<open>ZeroDivisionError\<close> on a zero divisor.\<close>

definition py_div :: "real \<Rightarrow> real \<Rightarrow> error + real" where
  "py_div a b = (if b = 0 then Inl ZeroDivisionError else Inr (a / b))"

text \<open>\<open>math.log\<close>: raises \<open>ValueError\<close> (math domain error) unless the argument is positive.\<close>

definition py_log :: "real \<Rightarrow> error + real" where
  "py_log x = (if x \<le> 0 then Inl ValueError else Inr (ln x))"

text \<open>\<open>math.sqrt\<close>: raises \<open>ValueError\<close> on a negative argument.\<close>

definition py_sqrt :: "real \<Rightarrow> error + real" where
  "py_sqrt x = (if x < 0 then Inl ValueError else Inr (sqrt x))"

text \<open>Sequencing of a computation that may raise: the first exception propagates.\<close>

definition bind_err :: "error + 'a \<Rightarrow> ('a \<Rightarrow> error + 'b) \<Rightarrow> error + 'b" where
  "bind_err m f = (case m of Inl e \<Rightarrow> Inl e | Inr x \<Rightarrow> f x)"

text \<open>
  \<open>math.erf\<close> is the error function. Over the reals it is given by its Maclaurin series
  \<open>erf x = 2 / sqrt pi * (\<Sum>n. (- 1) ^ n * x ^ (2 n + 1) / (n! * (2 n + 1)))\<close>,
  which converges for every \<open>x\<close>.
\<close>

definition erf_coeff :: "nat \<Rightarrow> real" where
  "erf_coeff n = (- 1) ^ n / (fact n * (2 * real n + 1))"

definition erf :: "real \<Rightarrow> real" where
  "erf x = 2 / sqrt pi * (\<Sum>n. erf_coeff n * x ^ (2 * n + 1))"

text \<open>
  The series \<open>\<Sum>n. erf_coeff n * y ^ n\<close>, with which
  \<open>erf x = 2 / sqrt pi * (x * erf_aux (x\<^sup>2))\<close>; it serves to differentiate \<open>erf\<close>.
\<close>

definition erf_aux :: "real \<Rightarrow> real" where
  "erf_aux y = (\<Sum>n. erf_coeff n * y ^ n)"


section \<open>models/black\_scholes.py\<close>

record OptionParams =
  S :: real
  K :: real
  r :: real
  q :: real
  sigma :: real
  T :: real

definition std_norm_cdf :: "real \<Rightarrow> real" where
  "std_norm_cdf x = 0.5 * (1.0 + erf (x / sqrt 2.0))"

definition std_norm_pdf :: "real \<Rightarrow> real" where
  "std_norm_pdf x = (1 / sqrt (2 * pi)) * exp (- 0.5 * x\<^sup>2)"

text \<open>
  \<open>d1\<close> evaluates left to right: the quotient \<open>S / K\<close>, its logarithm, the square root
  of \<open>T\<close>, and last the division by \<open>sigma * sqrt T\<close>.
\<close>

definition d1 :: "OptionParams \<Rightarrow> error + real" where
  "d1 p =
     bind_err (py_div (S p) (K p)) (\<lambda>m.
     bind_err (py_log m) (\<lambda>l.
     bind_err (py_sqrt (T p)) (\<lambda>s.
     py_div (l + (r p - q p + 0.5 * (sigma p)\<^sup>2) * T p) (sigma p * s))))"

text \<open>The second argument is the optional \<open>d1_val\<close>; \<open>None\<close> is Python's default.\<close>

definition d2 :: "OptionParams \<Rightarrow> real option \<Rightarrow> error + real" where
  "d2 p d1_val =
     bind_err (case d1_val of None \<Rightarrow> d1 p | Some v \<Rightarrow> Inr v) (\<lambda>d1v.
     bind_err (py_sqrt (T p)) (\<lambda>s.
     Inr (d1v - sigma p * s)))"

definition disc :: "real \<Rightarrow> real \<Rightarrow> real" where
  "disc rate t = exp (- rate * t)"

definition call_price :: "OptionParams \<Rightarrow> error + real" where
  "call_price p =
     bind_err (d1 p) (\<lambda>d1v.
     bind_err (d2 p (Some d1v)) (\<lambda>d2v.
     Inr (S p * exp (- q p * T p) * std_norm_cdf d1v
          - K p * exp (- r p * T p) * std_norm_cdf d2v)))"

definition put_price :: "OptionParams \<Rightarrow> error + real" where
  "put_price p =
     bind_err (d1 p) (\<lambda>d1v.
     bind_err (d2 p (Some d1v)) (\<lambda>d2v.
     Inr (K p * exp (- r p * T p) * std_norm_cdf (- d2v)
          - S p * exp (- q p * T p) * std_norm_cdf (- d1v))))"

definition black_scholes_price :: "OptionParams \<Rightarrow> string \<Rightarrow> error + real" where
  "black_scholes_price p kind = (if kind = ''call'' then call_price p else put_price p)"

definition delta :: "OptionParams \<Rightarrow> string \<Rightarrow> error + real" where
  "delta p kind =
     bind_err (d1 p) (\<lambda>d1v.
     if kind = ''call'' then Inr (exp (- q p * T p) * std_norm_cdf d1v)
     else Inr (- exp (- q p * T p) * std_norm_cdf (- d1v)))"

definition gamma :: "OptionParams \<Rightarrow> error + real" where
  "gamma p =
     bind_err (d1 p) (\<lambda>d1v.
     bind_err (py_sqrt (T p)) (\<lambda>s.
     py_div (exp (- q p * T p) * std_norm_pdf d1v) (S p * sigma p * s)))"

definition vega :: "OptionParams \<Rightarrow> error + real" where
  "vega p =
     bind_err (d1 p) (\<lambda>d1v.
     bind_err (py_sqrt (T p)) (\<lambda>s.
     Inr (S p * exp (- q p * T p) * std_norm_pdf d1v * s)))"

definition theta :: "OptionParams \<Rightarrow> string \<Rightarrow> error + real" where
  "theta p kind =
     bind_err (d1 p) (\<lambda>d1v.
     bind_err (d2 p (Some d1v)) (\<lambda>d2v.
     bind_err (py_sqrt (T p)) (\<lambda>s.
     bind_err (py_div (S p * exp (- q p * T p) * std_norm_pdf d1v * sigma p) (2 * s)) (\<lambda>x.
     let part1 = - x in
     if kind = ''call'' then
       (let part2 = - r p * K p * exp (- r p * T p) * std_norm_cdf d2v;
            part3 = q p * S p * exp (- q p * T p) * std_norm_cdf d1v
        in Inr (part1 + part2 + part3))
     else
       (let part2 = r p * K p * exp (- r p * T p) * std_norm_cdf (- d2v);
            part3 = - q p * S p * exp (- q p * T p) * std_norm_cdf (- d1v)
        in Inr (part1 + part2 + part3))))))"

definition rho :: "OptionParams \<Rightarrow> string \<Rightarrow> error + real" where
  "rho p kind =
     bind_err (d2 p None) (\<lambda>d2v.
     if kind = ''call'' then Inr (K p * T p * exp (- r p * T p) * std_norm_cdf d2v)
     else Inr (- K p * T p * exp (- r p * T p) * std_norm_cdf (- d2v)))"


section \<open>models/monte\_carlo.py\<close>

text \<open>
  numpy's legacy generator is one process-wide state, which \<open>np.random.seed\<close> overwrites
  and every draw advances. The generator algorithm is a parameter of the model: the state
  \<open>seed_state s\<close> that seeding with \<open>s\<close> installs, and the step \<open>gauss\<close> that draws
  one standard normal value from a state and returns the next state. The process-wide
  state is passed in and returned by every function that touches it.
\<close>

record 'g generator =
  seed_state :: "int \<Rightarrow> 'g"
  gauss :: "'g \<Rightarrow> real \<times> 'g"

text \<open>
  numpy's float results can also be \<open>nan\<close> or infinite (the mean of an empty array, a
  division by zero), with a warning and no exception: \<open>NotFinite\<close>.
\<close>

datatype npfloat = Fin real | NotFinite

text \<open>\<open>n\<close> successive draws.\<close>

fun draws :: "'g generator \<Rightarrow> nat \<Rightarrow> 'g \<Rightarrow> real list \<times> 'g" where
  "draws G 0 g = ([], g)"
| "draws G (Suc n) g =
     (case gauss G g of (z, g1) \<Rightarrow>
      case draws G n g1 of (zs, g2) \<Rightarrow> (z # zs, g2))"

text \<open>
  \<open>np.random.seed(seed)\<close>: raises \<open>ValueError\<close> unless \<open>0 \<le> seed < 2 ^ 32\<close>, and
  otherwise replaces the process-wide state.
\<close>

definition np_random_seed :: "'g generator \<Rightarrow> int \<Rightarrow> 'g \<Rightarrow> (error + unit) \<times> 'g" where
  "np_random_seed G seed g =
     (if 0 \<le> seed \<and> seed < 2 ^ 32 then (Inr (), seed_state G seed) else (Inl ValueError, g))"

text \<open>\<open>np.random.randn(n)\<close>: raises \<open>ValueError\<close> on a negative dimension.\<close>

definition np_random_randn :: "'g generator \<Rightarrow> int \<Rightarrow> 'g \<Rightarrow> (error + real list) \<times> 'g" where
  "np_random_randn G n g =
     (if n < 0 then (Inl ValueError, g)
      else case draws G (nat n) g of (zs, g1) \<Rightarrow> (Inr zs, g1))"

text \<open>\<open>np.mean\<close>: \<open>nan\<close> on an empty array.\<close>

definition np_mean :: "real list \<Rightarrow> npfloat" where
  "np_mean xs = (if xs = [] then NotFinite else Fin (sum_list xs / real (length xs)))"

text \<open>
  \<open>np.std\<close> with its default \<open>ddof = 0\<close>: the square root of the mean of the squared
  deviations from the mean (the divisor is the number of elements); \<open>nan\<close> on an empty
  array.
\<close>

definition np_std :: "real list \<Rightarrow> npfloat" where
  "np_std xs =
     (if xs = [] then NotFinite
      else let m = sum_list xs / real (length xs)
           in Fin (sqrt (sum_list (map (\<lambda>x. \<bar>x - m\<bar>\<^sup>2) xs) / real (length xs))))"

text \<open>A numpy float divided by a Python float: no exception on a zero divisor.\<close>

definition np_divide :: "npfloat \<Rightarrow> real \<Rightarrow> npfloat" where
  "np_divide a b =
     (case a of NotFinite \<Rightarrow> NotFinite
      | Fin x \<Rightarrow> if b = 0 then NotFinite else Fin (x / b))"

text \<open>A numpy float minus a Python float.\<close>

definition np_subtract :: "npfloat \<Rightarrow> real \<Rightarrow> npfloat" where
  "np_subtract a b = (case a of NotFinite \<Rightarrow> NotFinite | Fin x \<Rightarrow> Fin (x - b))"

definition simulate_paths ::
  "'g generator \<Rightarrow> OptionParams \<Rightarrow> int \<Rightarrow> int \<Rightarrow> 'g \<Rightarrow> (error + real list) \<times> 'g" where
  "simulate_paths G p n_sims seed g =
     (case np_random_seed G seed g of
        (Inl e, g1) \<Rightarrow> (Inl e, g1)
      | (Inr _, g1) \<Rightarrow>
     (case np_random_randn G n_sims g1 of
        (Inl e, g2) \<Rightarrow> (Inl e, g2)
      | (Inr Z, g2) \<Rightarrow>
     (let drift = (r p - q p - 0.5 * (sigma p)\<^sup>2) * T p in
      case py_sqrt (T p) of
        Inl e \<Rightarrow> (Inl e, g2)
      | Inr s \<Rightarrow>
     (let diffusion = map (\<lambda>z. sigma p * s * z) Z;
          ST = map (\<lambda>d. S p * exp (drift + d)) diffusion
      in (Inr ST, g2)))))"

definition monte_carlo_price ::
  "'g generator \<Rightarrow> OptionParams \<Rightarrow> string \<Rightarrow> int \<Rightarrow> int \<Rightarrow> 'g
     \<Rightarrow> (error + npfloat \<times> npfloat) \<times> 'g" where
  "monte_carlo_price G p kind n_sims seed g =
     (case simulate_paths G p n_sims seed g of
        (Inl e, g1) \<Rightarrow> (Inl e, g1)
      | (Inr ST, g1) \<Rightarrow>
     (let payoffs = (if kind = ''call'' then map (\<lambda>s. max (s - K p) 0) ST
                     else map (\<lambda>s. max (K p - s) 0) ST);
          discounted_payoffs = map (\<lambda>x. exp (- r p * T p) * x) payoffs;
          price = np_mean discounted_payoffs;
          stderr = np_divide (np_std discounted_payoffs) (sqrt (real_of_int n_sims))
      in (Inr (price, stderr), g1)))"


section \<open>interface/stats\_analysis.py\<close>

text \<open>
  \<open>compare_mc_vs_bs\<close> returns a tuple of a Python float and three numpy arrays. The
  values of the tuple carry their Python type.
\<close>

datatype pyval = Float real | Array "npfloat list"

text \<open>
  The calls \<open>compare_mc_vs_bs\<close> makes to the two pricers are recorded in the order in which
  it makes them, so that how often a pricer runs can be stated.
\<close>

datatype call = Call_black_scholes_price | Call_monte_carlo_price int

text \<open>
  The loop over \<open>n_sims_list\<close>: each round calls \<open>monte_carlo_price\<close> with the default
  \<open>seed = 42\<close> and appends the price and the error to the two lists. An exception ends the
  loop.
\<close>

fun mc_loop ::
  "'g generator \<Rightarrow> OptionParams \<Rightarrow> string \<Rightarrow> int list \<Rightarrow> npfloat list \<Rightarrow> npfloat list
     \<Rightarrow> 'g \<Rightarrow> call list \<Rightarrow> (error + npfloat list \<times> npfloat list) \<times> 'g \<times> call list" where
  "mc_loop G p kind [] mc_prices mc_errors g calls = (Inr (mc_prices, mc_errors), g, calls)"
| "mc_loop G p kind (n # ns) mc_prices mc_errors g calls =
     (case monte_carlo_price G p kind n 42 g of
        (Inl e, g1) \<Rightarrow> (Inl e, g1, calls @ [Call_monte_carlo_price n])
      | (Inr (price, err), g1) \<Rightarrow>
          mc_loop G p kind ns (mc_prices @ [price]) (mc_errors @ [err]) g1
            (calls @ [Call_monte_carlo_price n]))"

definition compare_mc_vs_bs ::
  "'g generator \<Rightarrow> OptionParams \<Rightarrow> string \<Rightarrow> int list \<Rightarrow> 'g
     \<Rightarrow> (error + pyval \<times> pyval \<times> pyval \<times> pyval) \<times> 'g \<times> call list" where
  "compare_mc_vs_bs G p kind n_sims_list g =
     (case black_scholes_price p kind of
        Inl e \<Rightarrow> (Inl e, g, [Call_black_scholes_price])
      | Inr bs_price \<Rightarrow>
     (case mc_loop G p kind n_sims_list [] [] g [Call_black_scholes_price] of
        (Inl e, g1, calls) \<Rightarrow> (Inl e, g1, calls)
      | (Inr (mc_prices, mc_errors), g1, calls) \<Rightarrow>
     (let biases = map (\<lambda>x. np_subtract x bs_price) mc_prices
      in (Inr (Float bs_price, Array mc_prices, Array mc_errors, Array biases), g1, calls))))"


section \<open>The formulas of the specification\<close>

text \<open>
  The auxiliary quantities as the specification writes them:
  \<open>d1 = (ln (S / K) + (r - q + sigma\<^sup>2 / 2) * T) / (sigma * sqrt T)\<close> and
  \<open>d2 = d1 - sigma * sqrt T\<close>.
\<close>

definition spec_d1 :: "OptionParams \<Rightarrow> real" where
  "spec_d1 p = (ln (S p / K p) + (r p - q p + (sigma p)\<^sup>2 / 2) * T p) / (sigma p * sqrt (T p))"

definition spec_d2 :: "OptionParams \<Rightarrow> real" where
  "spec_d2 p = spec_d1 p - sigma p * sqrt (T p)"

text \<open>
  The discounted payoff of one terminal price: \<open>exp (- r * T) * max (s - K) 0\<close> for a call,
  \<open>exp (- r * T) * max (K - s) 0\<close> for a put.
\<close>

definition spec_discounted_call :: "OptionParams \<Rightarrow> real \<Rightarrow> real" where
  "spec_discounted_call p s = exp (- r p * T p) * max (s - K p) 0"

definition spec_discounted_put :: "OptionParams \<Rightarrow> real \<Rightarrow> real" where
  "spec_discounted_put p s = exp (- r p * T p) * max (K p - s) 0"

text \<open>
  The terminal price of one draw \<open>z\<close>:
  \<open>S * exp ((r - q - sigma\<^sup>2 / 2) * T + sigma * sqrt T * z)\<close>.
\<close>

definition spec_terminal_price :: "OptionParams \<Rightarrow> real \<Rightarrow> real" where
  "spec_terminal_price p z =
     S p * exp ((r p - q p - (sigma p)\<^sup>2 / 2) * T p + sigma p * sqrt (T p) * z)"

text \<open>
  The terminal prices of \<open>n\<close> draws from a generator that has just been seeded with
  \<open>seed\<close>, and the state of that generator after the draws.
\<close>

definition fresh_samples :: "'g generator \<Rightarrow> OptionParams \<Rightarrow> int \<Rightarrow> int \<Rightarrow> real list" where
  "fresh_samples G p n seed =
     map (spec_terminal_price p) (fst (draws G (nat n) (seed_state G seed)))"

definition state_after :: "'g generator \<Rightarrow> int \<Rightarrow> int \<Rightarrow> 'g" where
  "state_after G n seed = snd (draws G (nat n) (seed_state G seed))"

definition spec_discounted :: "OptionParams \<Rightarrow> string \<Rightarrow> real \<Rightarrow> real" where
  "spec_discounted p kind =
     (if kind = ''call'' then spec_discounted_call p else spec_discounted_put p)"

definition spec_mean :: "real list \<Rightarrow> real" where
  "spec_mean xs = sum_list xs / real (length xs)"

text \<open>The sample standard deviation with Bessel's correction: the divisor is \<open>n - 1\<close>.\<close>

definition sample_std_dev :: "real list \<Rightarrow> real" where
  "sample_std_dev xs =
     sqrt (sum_list (map (\<lambda>x. (x - spec_mean xs)\<^sup>2) xs) / (real (length xs) - 1))"

text \<open>The population standard deviation: the divisor is \<open>n\<close>.\<close>

definition population_std_dev :: "real list \<Rightarrow> real" where
  "population_std_dev xs =
     sqrt (sum_list (map (\<lambda>x. (x - spec_mean xs)\<^sup>2) xs) / real (length xs))"

text \<open>
  The price and the standard error that the samples of a generator just seeded with
  \<open>seed\<close> give for \<open>n\<close> simulations.
\<close>

definition estimate_price :: "'g generator \<Rightarrow> OptionParams \<Rightarrow> string \<Rightarrow> int \<Rightarrow> int \<Rightarrow> npfloat" where
  "estimate_price G p kind n seed =
     np_mean (map (spec_discounted p kind) (fresh_samples G p n seed))"

definition estimate_error :: "'g generator \<Rightarrow> OptionParams \<Rightarrow> string \<Rightarrow> int \<Rightarrow> int \<Rightarrow> npfloat" where
  "estimate_error G p kind n seed =
     np_divide (np_std (map (spec_discounted p kind) (fresh_samples G p n seed)))
       (sqrt (real_of_int n))"

text \<open>The length of a returned value, where it has one: a float has none.\<close>

definition sequence_length :: "pyval \<Rightarrow> nat option" where
  "sequence_length v = (case v of Float x \<Rightarrow> None | Array xs \<Rightarrow> Some (length xs))"

text \<open>
  The lengths of the four components of a returned tuple, in the order of the tuple.
\<close>

definition returned_lengths :: "error + pyval \<times> pyval \<times> pyval \<times> pyval \<Rightarrow> nat option list" where
  "returned_lengths res =
     (case res of Inl e \<Rightarrow> [] | Inr (a, b, c, d) \<Rightarrow> map sequence_length [a, b, c, d])"

text \<open>
  The exception that the parameters alone force on \<open>d1\<close>, in the order in which \<open>d1\<close>
  evaluates: the division by \<open>K\<close>, the logarithm of \<open>S / K\<close>, the square root of \<open>T\<close>,
  the division by \<open>sigma * sqrt T\<close>; \<open>None\<close> when \<open>d1\<close> returns.
\<close>

definition analytic_failure :: "OptionParams \<Rightarrow> error option" where
  "analytic_failure p =
     (if K p = 0 then Some ZeroDivisionError
      else if S p / K p \<le> 0 then Some ValueError
      else if T p < 0 then Some ValueError
      else if sigma p = 0 \<or> T p = 0 then Some ZeroDivisionError
      else None)"

text \<open>
  A generator for concrete runs: its state is a counter, seeding with \<open>s\<close> sets the counter
  to \<open>s\<close>, and the draw in state \<open>g\<close> is \<open>1 + ln (1 + 2 g)\<close>. With the parameters
  \<open>example_params\<close> below, for which \<open>d1 = 0\<close> and \<open>d2 = - 1\<close>, the terminal price of
  that draw is \<open>1 + 2 g\<close>.
\<close>

definition counter_generator :: "nat generator" where
  "counter_generator =
     \<lparr>seed_state = (\<lambda>s. nat s), gauss = (\<lambda>g. (1 + ln (1 + 2 * real g), Suc g))\<rparr>"

definition example_params :: OptionParams where
  "example_params = \<lparr>S = 1, K = 1, r = 0, q = 1 / 2, sigma = 1, T = 1\<rparr>"


section \<open>The error function\<close>

lemma erf_summable: "summable (\<lambda>n. erf_coeff n * x ^ (2 * n + 1))"
proof (rule summable_comparison_test')
  show "summable (\<lambda>n. \<bar>x\<bar> * ((x\<^sup>2) ^ n /\<^sub>R fact n))"
    by (intro summable_mult summable_exp_generic)
next
  fix n :: nat
  have "norm (erf_coeff n * x ^ (2 * n + 1)) = \<bar>x\<bar> * (x\<^sup>2) ^ n / (fact n * (2 * real n + 1))"
    by (simp add: erf_coeff_def abs_mult power_abs power_mult power_even_abs)
  also have "\<dots> \<le> \<bar>x\<bar> * (x\<^sup>2) ^ n / (fact n * 1)"
    by (intro divide_left_mono mult_left_mono mult_nonneg_nonneg mult_pos_pos) auto
  finally show "norm (erf_coeff n * x ^ (2 * n + 1)) \<le> \<bar>x\<bar> * ((x\<^sup>2) ^ n /\<^sub>R fact n)"
    by (simp add: divide_inverse mult_ac)
qed

lemma erf_minus: "erf (- x) = - erf x"
proof -
  have "(\<Sum>n. erf_coeff n * (- x) ^ (2 * n + 1)) = (\<Sum>n. - (erf_coeff n * x ^ (2 * n + 1)))"
    by simp
  also have "\<dots> = - (\<Sum>n. erf_coeff n * x ^ (2 * n + 1))"
    by (rule suminf_minus[OF erf_summable])
  finally show ?thesis by (simp add: erf_def)
qed

lemma erf_0: "erf 0 = 0"
  by (simp add: erf_def)

text \<open>The derivative of \<open>erf\<close> is \<open>2 / sqrt pi * exp (- x\<^sup>2)\<close>.\<close>

lemma erf_coeff_summable: "summable (\<lambda>n. erf_coeff n * y ^ n)"
proof (rule summable_comparison_test')
  show "summable (\<lambda>n. \<bar>y\<bar> ^ n /\<^sub>R fact n)"
    by (rule summable_exp_generic)
next
  fix n :: nat
  have "norm (erf_coeff n * y ^ n) = \<bar>y\<bar> ^ n / (fact n * (2 * real n + 1))"
    by (simp add: erf_coeff_def abs_mult power_abs)
  also have "\<dots> \<le> \<bar>y\<bar> ^ n / (fact n * 1)"
    by (intro divide_left_mono mult_left_mono mult_pos_pos) auto
  finally show "norm (erf_coeff n * y ^ n) \<le> \<bar>y\<bar> ^ n /\<^sub>R fact n"
    by (simp add: divide_inverse mult_ac)
qed

lemma erf_aux_deriv: "DERIV erf_aux y :> (\<Sum>n. diffs erf_coeff n * y ^ n)"
  unfolding erf_aux_def [abs_def]
proof (rule termdiffs_strong)
  show "summable (\<lambda>n. erf_coeff n * (\<bar>y\<bar> + 1) ^ n)"
    by (rule erf_coeff_summable)
  show "norm y < norm (\<bar>y\<bar> + 1)" by simp
qed

lemma erf_aux_ode: "erf_aux y + 2 * y * (\<Sum>n. diffs erf_coeff n * y ^ n) = exp (- y)"
proof -
  have s1: "(\<lambda>n. erf_coeff n * y ^ n) sums erf_aux y"
    unfolding erf_aux_def by (rule summable_sums [OF erf_coeff_summable])
  have "summable (\<lambda>n. diffs erf_coeff n * y ^ n)"
    by (rule termdiff_converges_all) (rule erf_coeff_summable)
  then have "(\<lambda>n. diffs erf_coeff n * y ^ n) sums (\<Sum>n. diffs erf_coeff n * y ^ n)"
    by (rule summable_sums)
  then have "(\<lambda>n. 2 * y * (diffs erf_coeff n * y ^ n)) sums (2 * y * (\<Sum>n. diffs erf_coeff n * y ^ n))"
    by (rule sums_mult)
  then have "(\<lambda>n. 2 * real (Suc n) * erf_coeff (Suc n) * y ^ Suc n)
      sums (2 * y * (\<Sum>n. diffs erf_coeff n * y ^ n))"
    by (simp add: diffs_def mult_ac)
  then have s2: "(\<lambda>n. 2 * real n * erf_coeff n * y ^ n)
      sums (2 * y * (\<Sum>n. diffs erf_coeff n * y ^ n))"
    by (subst (asm) sums_Suc_iff) simp
  have "(\<lambda>n. erf_coeff n * y ^ n + 2 * real n * erf_coeff n * y ^ n)
      sums (erf_aux y + 2 * y * (\<Sum>n. diffs erf_coeff n * y ^ n))"
    by (rule sums_add [OF s1 s2])
  moreover have "(\<lambda>n. erf_coeff n * y ^ n + 2 * real n * erf_coeff n * y ^ n)
      = (\<lambda>n. (- y) ^ n /\<^sub>R fact n)"
  proof
    fix n :: nat
    have "erf_coeff n * y ^ n + 2 * real n * erf_coeff n * y ^ n
        = (2 * real n + 1) * erf_coeff n * y ^ n"
      by (simp add: algebra_simps)
    also have "(2 * real n + 1) * erf_coeff n = (- 1) ^ n / fact n"
      by (simp add: erf_coeff_def)
    also have "(- 1) ^ n / fact n * y ^ n = (- y) ^ n /\<^sub>R fact n"
      by (simp add: power_minus [of y] divide_inverse mult_ac)
    finally show "erf_coeff n * y ^ n + 2 * real n * erf_coeff n * y ^ n = (- y) ^ n /\<^sub>R fact n" .
  qed
  ultimately have "(\<lambda>n. (- y) ^ n /\<^sub>R fact n)
      sums (erf_aux y + 2 * y * (\<Sum>n. diffs erf_coeff n * y ^ n))"
    by simp
  then show ?thesis
    by (rule sums_unique2) (rule exp_converges)
qed

lemma erf_eq_aux: "erf x = 2 / sqrt pi * (x * erf_aux (x\<^sup>2))"
proof -
  have "\<And>n. x ^ (2 * n + 1) = x * (x\<^sup>2) ^ n"
    by (simp add: power_mult [symmetric])
  then have "(\<Sum>n. erf_coeff n * x ^ (2 * n + 1)) = (\<Sum>n. x * (erf_coeff n * (x\<^sup>2) ^ n))"
    by (simp only: mult_ac)
  also have "\<dots> = x * (\<Sum>n. erf_coeff n * (x\<^sup>2) ^ n)"
    by (rule suminf_mult [OF erf_coeff_summable])
  finally show ?thesis by (simp add: erf_def erf_aux_def)
qed

lemma erf_deriv: "DERIV erf x :> 2 / sqrt pi * exp (- x\<^sup>2)"
proof -
  have d: "DERIV (\<lambda>x. 2 / sqrt pi * (x * erf_aux (x\<^sup>2))) x
      :> 2 / sqrt pi * (1 * erf_aux (x\<^sup>2) + x * ((\<Sum>n. diffs erf_coeff n * (x\<^sup>2) ^ n) * (2 * x)))"
    by (rule derivative_eq_intros DERIV_chain2 [OF erf_aux_deriv] refl | simp)+
  have e: "1 * erf_aux (x\<^sup>2) + x * ((\<Sum>n. diffs erf_coeff n * (x\<^sup>2) ^ n) * (2 * x))
      = exp (- x\<^sup>2)"
    using erf_aux_ode [of "x\<^sup>2"] by (simp add: power2_eq_square mult_ac)
  have f: "erf = (\<lambda>x. 2 / sqrt pi * (x * erf_aux (x\<^sup>2)))"
    by (rule ext) (rule erf_eq_aux)
  from d show ?thesis unfolding e f .
qed


section \<open>The analytical pricer on valid parameter sets\<close>

lemma bind_err_simps [simp]:
  "bind_err (Inl e) f = Inl e" "bind_err (Inr x) f = f x"
  by (simp_all add: bind_err_def)

lemma d1_valid:
  assumes "0 < S p" "0 < K p" "0 < sigma p" "0 < T p"
  shows "d1 p = Inr (spec_d1 p)"
  using assms by (simp add: d1_def spec_d1_def py_div_def py_log_def py_sqrt_def not_le)

lemma d2_valid:
  assumes "0 < S p" "0 < K p" "0 < sigma p" "0 < T p"
  shows "d2 p None = Inr (spec_d2 p)" "d2 p (Some (spec_d1 p)) = Inr (spec_d2 p)"
  using assms by (simp_all add: d2_def d1_valid spec_d2_def py_sqrt_def)

lemma std_norm_cdf_minus: "std_norm_cdf (- x) = 1 - std_norm_cdf x"
  by (simp add: std_norm_cdf_def erf_minus field_simps)

lemma std_norm_cdf_0: "std_norm_cdf 0 = 1 / 2"
  by (simp add: std_norm_cdf_def erf_0)

lemma std_norm_pdf_eq: "std_norm_pdf x = exp (- (x\<^sup>2 / 2)) / sqrt (2 * pi)"
  by (simp add: std_norm_pdf_def)

text \<open>The derivative of \<open>std_norm_cdf\<close> is the standard normal density \<open>std_norm_pdf\<close>.\<close>

lemma std_norm_cdf_deriv: "DERIV std_norm_cdf x :> std_norm_pdf x"
proof -
  have d: "DERIV (\<lambda>x. 0.5 * (1.0 + erf (x / sqrt 2.0))) x
      :> exp (- (x / sqrt 2)\<^sup>2) * sqrt 2 / (sqrt pi * 2)"
    by (rule derivative_eq_intros DERIV_chain2 [OF erf_deriv] refl | simp)+
  have "(x / sqrt 2)\<^sup>2 = x\<^sup>2 / 2"
    by (simp add: power_divide)
  moreover have "sqrt 2 * sqrt 2 = (2::real)"
    by simp
  then have "1 / sqrt 2 = sqrt 2 / (2::real)"
    by (simp add: field_simps)
  ultimately have e: "exp (- (x / sqrt 2)\<^sup>2) * sqrt 2 / (sqrt pi * 2) = std_norm_pdf x"
    by (simp add: std_norm_pdf_def real_sqrt_mult field_simps)
  have f: "std_norm_cdf = (\<lambda>x. 0.5 * (1.0 + erf (x / sqrt 2.0)))"
    by (rule ext) (rule std_norm_cdf_def)
  from d show ?thesis unfolding e f .
qed

lemma spec_d1_example: "spec_d1 \<lparr>S = 1, K = 1, r = 0, q = 1 / 2, sigma = 1, T = 1\<rparr> = 0"
  by (simp add: spec_d1_def)

lemma spec_d2_example: "spec_d2 \<lparr>S = 1, K = 1, r = 0, q = 1 / 2, sigma = 1, T = 1\<rparr> = - 1"
  by (simp add: spec_d2_def spec_d1_example)

text \<open>
  Claim C1. For a parameter set with \<open>S > 0\<close>, \<open>K > 0\<close>, \<open>sigma > 0\<close> and \<open>T > 0\<close>,
  \<open>black_scholes_price\<close> raises nothing and returns the closed form: for a call
  \<open>S * exp (- q * T) * N d1 - K * exp (- r * T) * N d2\<close>, for a put
  \<open>K * exp (- r * T) * N (- d2) - S * exp (- q * T) * N (- d1)\<close>, with \<open>d1\<close> and \<open>d2\<close>
  the quantities of the specification and \<open>N\<close> the function \<open>std_norm_cdf\<close>. That \<open>N\<close>
  is the standard normal distribution function in this sense: \<open>N 0 = 1 / 2\<close>, and its
  derivative at every \<open>x\<close> is the standard normal density
  \<open>exp (- x\<^sup>2 / 2) / sqrt (2 * pi)\<close>.
\<close>

theorem black_scholes_price_closed_form:
  assumes "0 < S p" "0 < K p" "0 < sigma p" "0 < T p"
  shows "black_scholes_price p ''call'' =
           Inr (S p * exp (- q p * T p) * std_norm_cdf (spec_d1 p)
                - K p * exp (- r p * T p) * std_norm_cdf (spec_d2 p))
       \<and> black_scholes_price p ''put'' =
           Inr (K p * exp (- r p * T p) * std_norm_cdf (- spec_d2 p)
                - S p * exp (- q p * T p) * std_norm_cdf (- spec_d1 p))
       \<and> std_norm_cdf 0 = 1 / 2
       \<and> (\<forall>x. DERIV std_norm_cdf x :> exp (- (x\<^sup>2 / 2)) / sqrt (2 * pi))"
proof (intro conjI allI)
  show "black_scholes_price p ''call'' =
           Inr (S p * exp (- q p * T p) * std_norm_cdf (spec_d1 p)
                - K p * exp (- r p * T p) * std_norm_cdf (spec_d2 p))"
    using assms by (simp add: black_scholes_price_def call_price_def d1_valid d2_valid)
  show "black_scholes_price p ''put'' =
           Inr (K p * exp (- r p * T p) * std_norm_cdf (- spec_d2 p)
                - S p * exp (- q p * T p) * std_norm_cdf (- spec_d1 p))"
    using assms by (simp add: black_scholes_price_def put_price_def d1_valid d2_valid)
  show "std_norm_cdf 0 = 1 / 2"
    by (rule std_norm_cdf_0)
  show "DERIV std_norm_cdf x :> exp (- (x\<^sup>2 / 2)) / sqrt (2 * pi)" for x
    using std_norm_cdf_deriv [of x] by (simp only: std_norm_pdf_eq)
qed

text \<open>The closed form at \<open>S = K = 1\<close>, \<open>r = 0\<close>, \<open>q = 1 / 2\<close>, \<open>sigma = T = 1\<close>, where \<open>d1 = 0\<close> and \<open>d2 = - 1\<close>.\<close>

theorem black_scholes_price_closed_form_witness:
  "black_scholes_price \<lparr>S = 1, K = 1, r = 0, q = 1 / 2, sigma = 1, T = 1\<rparr> ''call'' =
     Inr (exp (- (1 / 2)) * (1 / 2) - std_norm_cdf (- 1))
   \<and> black_scholes_price \<lparr>S = 1, K = 1, r = 0, q = 1 / 2, sigma = 1, T = 1\<rparr> ''put'' =
     Inr (std_norm_cdf 1 - exp (- (1 / 2)) * (1 / 2))"
  using black_scholes_price_closed_form [of "\<lparr>S = 1, K = 1, r = 0, q = 1 / 2, sigma = 1, T = 1\<rparr>"]
  unfolding spec_d1_example spec_d2_example
  by (simp add: std_norm_cdf_0)

text \<open>
  Claim C2. For a parameter set with \<open>S > 0\<close>, \<open>K > 0\<close>, \<open>sigma > 0\<close> and \<open>T > 0\<close>,
  the five sensitivities raise nothing and return the formulas of the specification:
  \<open>delta\<close>, \<open>theta\<close> and \<open>rho\<close> for a call and for a put, \<open>gamma\<close> and \<open>vega\<close>
  whatever the kind; \<open>N\<close> is \<open>std_norm_cdf\<close> and \<open>n\<close> is \<open>std_norm_pdf\<close>, the
  standard normal density \<open>exp (- x\<^sup>2 / 2) / sqrt (2 * pi)\<close>.
\<close>

theorem greeks_closed_form:
  assumes "0 < S p" "0 < K p" "0 < sigma p" "0 < T p"
  shows "delta p ''call'' = Inr (exp (- q p * T p) * std_norm_cdf (spec_d1 p))
       \<and> delta p ''put'' = Inr (- exp (- q p * T p) * std_norm_cdf (- spec_d1 p))
       \<and> gamma p = Inr (exp (- q p * T p) * std_norm_pdf (spec_d1 p) / (S p * sigma p * sqrt (T p)))
       \<and> vega p = Inr (S p * exp (- q p * T p) * std_norm_pdf (spec_d1 p) * sqrt (T p))
       \<and> theta p ''call'' =
           Inr (- (S p * exp (- q p * T p) * std_norm_pdf (spec_d1 p) * sigma p) / (2 * sqrt (T p))
                - r p * K p * exp (- r p * T p) * std_norm_cdf (spec_d2 p)
                + q p * S p * exp (- q p * T p) * std_norm_cdf (spec_d1 p))
       \<and> theta p ''put'' =
           Inr (- (S p * exp (- q p * T p) * std_norm_pdf (spec_d1 p) * sigma p) / (2 * sqrt (T p))
                + r p * K p * exp (- r p * T p) * std_norm_cdf (- spec_d2 p)
                - q p * S p * exp (- q p * T p) * std_norm_cdf (- spec_d1 p))
       \<and> rho p ''call'' = Inr (K p * T p * exp (- r p * T p) * std_norm_cdf (spec_d2 p))
       \<and> rho p ''put'' = Inr (- K p * T p * exp (- r p * T p) * std_norm_cdf (- spec_d2 p))
       \<and> (\<forall>x. std_norm_pdf x = exp (- (x\<^sup>2 / 2)) / sqrt (2 * pi))"
proof (intro conjI allI)
  show "std_norm_pdf x = exp (- (x\<^sup>2 / 2)) / sqrt (2 * pi)" for x
    by (rule std_norm_pdf_eq)
  show "delta p ''call'' = Inr (exp (- q p * T p) * std_norm_cdf (spec_d1 p))"
    using assms by (simp add: delta_def d1_valid)
  show "delta p ''put'' = Inr (- exp (- q p * T p) * std_norm_cdf (- spec_d1 p))"
    using assms by (simp add: delta_def d1_valid)
  show "gamma p = Inr (exp (- q p * T p) * std_norm_pdf (spec_d1 p) / (S p * sigma p * sqrt (T p)))"
    using assms by (simp add: gamma_def d1_valid py_sqrt_def py_div_def)
  show "vega p = Inr (S p * exp (- q p * T p) * std_norm_pdf (spec_d1 p) * sqrt (T p))"
    using assms by (simp add: vega_def d1_valid py_sqrt_def)
  show "theta p ''call'' =
           Inr (- (S p * exp (- q p * T p) * std_norm_pdf (spec_d1 p) * sigma p) / (2 * sqrt (T p))
                - r p * K p * exp (- r p * T p) * std_norm_cdf (spec_d2 p)
                + q p * S p * exp (- q p * T p) * std_norm_cdf (spec_d1 p))"
    using assms by (simp add: theta_def d1_valid d2_valid py_sqrt_def py_div_def)
  show "theta p ''put'' =
           Inr (- (S p * exp (- q p * T p) * std_norm_pdf (spec_d1 p) * sigma p) / (2 * sqrt (T p))
                + r p * K p * exp (- r p * T p) * std_norm_cdf (- spec_d2 p)
                - q p * S p * exp (- q p * T p) * std_norm_cdf (- spec_d1 p))"
    using assms by (simp add: theta_def d1_valid d2_valid py_sqrt_def py_div_def)
  show "rho p ''call'' = Inr (K p * T p * exp (- r p * T p) * std_norm_cdf (spec_d2 p))"
    using assms by (simp add: rho_def d2_valid)
  show "rho p ''put'' = Inr (- K p * T p * exp (- r p * T p) * std_norm_cdf (- spec_d2 p))"
    using assms by (simp add: rho_def d2_valid)
qed

text \<open>The sensitivities at the same parameter set.\<close>

theorem greeks_closed_form_witness:
  "delta \<lparr>S = 1, K = 1, r = 0, q = 1 / 2, sigma = 1, T = 1\<rparr> ''call'' = Inr (exp (- (1 / 2)) * (1 / 2))
   \<and> gamma \<lparr>S = 1, K = 1, r = 0, q = 1 / 2, sigma = 1, T = 1\<rparr> = Inr (exp (- (1 / 2)) * std_norm_pdf 0)
   \<and> vega \<lparr>S = 1, K = 1, r = 0, q = 1 / 2, sigma = 1, T = 1\<rparr> = Inr (exp (- (1 / 2)) * std_norm_pdf 0)
   \<and> rho \<lparr>S = 1, K = 1, r = 0, q = 1 / 2, sigma = 1, T = 1\<rparr> ''put'' = Inr (- std_norm_cdf 1)"
  using greeks_closed_form [of "\<lparr>S = 1, K = 1, r = 0, q = 1 / 2, sigma = 1, T = 1\<rparr>"]
  unfolding spec_d1_example spec_d2_example
  by (simp add: std_norm_cdf_0)

text \<open>
  Claim C7. Put-call parity: for a parameter set with \<open>S > 0\<close>, \<open>K > 0\<close>, \<open>sigma > 0\<close>
  and \<open>T > 0\<close>, both \<open>call_price\<close> and \<open>put_price\<close> return a value, and the call price
  minus the put price is \<open>S * exp (- q * T) - K * exp (- r * T)\<close>, exactly over the reals.
\<close>

theorem put_call_parity:
  assumes "0 < S p" "0 < K p" "0 < sigma p" "0 < T p"
  shows "\<exists>c pt. call_price p = Inr c \<and> put_price p = Inr pt
           \<and> c - pt = S p * exp (- q p * T p) - K p * exp (- r p * T p)"
proof (intro exI conjI)
  show "call_price p = Inr (S p * exp (- q p * T p) * std_norm_cdf (spec_d1 p)
                - K p * exp (- r p * T p) * std_norm_cdf (spec_d2 p))"
    using assms by (simp add: call_price_def d1_valid d2_valid)
  show "put_price p = Inr (K p * exp (- r p * T p) * std_norm_cdf (- spec_d2 p)
                - S p * exp (- q p * T p) * std_norm_cdf (- spec_d1 p))"
    using assms by (simp add: put_price_def d1_valid d2_valid)
  show "S p * exp (- q p * T p) * std_norm_cdf (spec_d1 p)
                - K p * exp (- r p * T p) * std_norm_cdf (spec_d2 p)
      - (K p * exp (- r p * T p) * std_norm_cdf (- spec_d2 p)
                - S p * exp (- q p * T p) * std_norm_cdf (- spec_d1 p))
      = S p * exp (- q p * T p) - K p * exp (- r p * T p)"
    by (simp add: std_norm_cdf_minus algebra_simps)
qed

text \<open>Parity at the same parameter set.\<close>

theorem put_call_parity_witness:
  "\<exists>c pt. call_price \<lparr>S = 1, K = 1, r = 0, q = 1 / 2, sigma = 1, T = 1\<rparr> = Inr c
     \<and> put_price \<lparr>S = 1, K = 1, r = 0, q = 1 / 2, sigma = 1, T = 1\<rparr> = Inr pt
     \<and> c - pt = exp (- (1 / 2)) - 1"
  using put_call_parity [of "\<lparr>S = 1, K = 1, r = 0, q = 1 / 2, sigma = 1, T = 1\<rparr>"]
  by simp


section \<open>The Monte Carlo pricer\<close>

lemma draws_length: "length (fst (draws G n g)) = n"
proof (induction n arbitrary: g)
  case 0
  show ?case by simp
next
  case (Suc n)
  obtain z g1 where a: "gauss G g = (z, g1)" by (cases "gauss G g")
  obtain zs g2 where b: "draws G n g1 = (zs, g2)" by (cases "draws G n g1")
  from Suc [of g1] b have "length zs = n" by simp
  with a b show ?case by simp
qed

lemma fresh_samples_length: "0 \<le> n \<Longrightarrow> length (fresh_samples G p n seed) = nat n"
  by (simp add: fresh_samples_def draws_length)

lemma simulate_paths_ok:
  assumes "0 \<le> seed" "seed < 2 ^ 32" "0 \<le> n" "0 \<le> T p"
  shows "simulate_paths G p n seed g = (Inr (fresh_samples G p n seed), state_after G n seed)"
  using assms
  by (simp add: simulate_paths_def np_random_seed_def np_random_randn_def py_sqrt_def
      fresh_samples_def state_after_def spec_terminal_price_def comp_def split: prod.splits)

lemma simulate_paths_outcome:
  "fst (simulate_paths G p n seed g) =
     (if 0 \<le> seed \<and> seed < 2 ^ 32 \<and> 0 \<le> n \<and> 0 \<le> T p then Inr (fresh_samples G p n seed)
      else Inl ValueError)"
  by (auto simp: simulate_paths_ok)
     (auto simp: simulate_paths_def np_random_seed_def np_random_randn_def py_sqrt_def
        split: prod.splits)

lemma monte_carlo_price_unfold:
  "monte_carlo_price G p kind n seed g =
     (case simulate_paths G p n seed g of
        (Inl e, g1) \<Rightarrow> (Inl e, g1)
      | (Inr ST, g1) \<Rightarrow>
          (Inr (np_mean (map (spec_discounted p kind) ST),
                np_divide (np_std (map (spec_discounted p kind) ST)) (sqrt (real_of_int n))), g1))"
  by (simp add: monte_carlo_price_def spec_discounted_def spec_discounted_call_def [abs_def]
      spec_discounted_put_def [abs_def] comp_def Let_def split: prod.splits sum.splits)

lemma monte_carlo_price_ok:
  assumes "0 \<le> seed" "seed < 2 ^ 32" "0 \<le> n" "0 \<le> T p"
  shows "monte_carlo_price G p kind n seed g =
     (Inr (np_mean (map (spec_discounted p kind) (fresh_samples G p n seed)),
           np_divide (np_std (map (spec_discounted p kind) (fresh_samples G p n seed)))
             (sqrt (real_of_int n))),
      state_after G n seed)"
  using assms by (simp add: monte_carlo_price_unfold simulate_paths_ok)

lemma monte_carlo_price_outcome:
  "fst (monte_carlo_price G p kind n seed g) =
     (if 0 \<le> seed \<and> seed < 2 ^ 32 \<and> 0 \<le> n \<and> 0 \<le> T p
      then Inr (np_mean (map (spec_discounted p kind) (fresh_samples G p n seed)),
           np_divide (np_std (map (spec_discounted p kind) (fresh_samples G p n seed)))
             (sqrt (real_of_int n)))
      else Inl ValueError)"
proof (cases "0 \<le> seed \<and> seed < 2 ^ 32 \<and> 0 \<le> n \<and> 0 \<le> T p")
  case True
  then show ?thesis by (simp add: monte_carlo_price_ok)
next
  case False
  then have "fst (simulate_paths G p n seed g) = Inl ValueError"
    by (simp only: simulate_paths_outcome if_False)
  with False show ?thesis
    by (simp only: monte_carlo_price_unfold if_False split: prod.splits sum.splits) auto
qed

lemma np_mean_nonempty: "xs \<noteq> [] \<Longrightarrow> np_mean xs = Fin (spec_mean xs)"
  by (simp add: np_mean_def spec_mean_def)

lemma np_std_nonempty: "xs \<noteq> [] \<Longrightarrow> np_std xs = Fin (population_std_dev xs)"
  by (simp add: np_std_def population_std_dev_def spec_mean_def)

text \<open>
  Claim C8. Reproducibility: the result of \<open>monte_carlo_price\<close> (the price and the
  standard error, or the exception) is the same whatever the state of the process-wide
  generator before the call, so two calls with the same parameters, kind, number of
  simulations and seed return the same result; in particular a second call made right
  after the first returns what the first returned.
\<close>

theorem monte_carlo_price_reproducible:
  "fst (monte_carlo_price G p kind n seed g1) = fst (monte_carlo_price G p kind n seed g2)
   \<and> fst (monte_carlo_price G p kind n seed (snd (monte_carlo_price G p kind n seed g1)))
       = fst (monte_carlo_price G p kind n seed g1)"
  by (simp only: monte_carlo_price_outcome)

text \<open>Two calls from different states of the counter generator.\<close>

theorem monte_carlo_price_reproducible_witness:
  "fst (monte_carlo_price counter_generator example_params ''call'' 2 0 (0::nat))
     = fst (monte_carlo_price counter_generator example_params ''call'' 2 0 (7::nat))"
  using monte_carlo_price_reproducible [where G = counter_generator and p = example_params and kind = "''call''" and n = 2
      and seed = 0 and ?g1.0 = 0 and ?g2.0 = 7]
  by simp


section \<open>The Monte Carlo estimate and the process-wide generator\<close>

lemma example_params_simps [simp]:
  "S example_params = 1" "K example_params = 1" "r example_params = 0"
  "q example_params = 1 / 2" "sigma example_params = 1" "T example_params = 1"
  by (simp_all add: example_params_def)

lemma spec_d1_example_params: "spec_d1 example_params = 0"
  by (simp add: spec_d1_def)

lemma spec_d2_example_params: "spec_d2 example_params = - 1"
  by (simp add: spec_d2_def spec_d1_example_params)

lemma counter_generator_simps [simp]:
  "seed_state counter_generator s = nat s"
  "gauss counter_generator g = (1 + ln (1 + 2 * real g), Suc g)"
  by (simp_all add: counter_generator_def)

lemma draws_counter_2:
  "draws counter_generator 2 g = ([1 + ln (1 + 2 * real g), 1 + ln (3 + 2 * real g)], Suc (Suc g))"
  by (simp add: numeral_2_eq_2 algebra_simps)

lemma fresh_samples_example: "fresh_samples counter_generator example_params 2 0 = [1, 3]"
  by (simp add: fresh_samples_def draws_counter_2 spec_terminal_price_def)

lemma state_after_example: "state_after counter_generator 2 0 = 2"
  by (simp add: state_after_def draws_counter_2)

lemma population_vs_sample_std_dev:
  assumes "2 \<le> length xs"
  shows "population_std_dev xs = sample_std_dev xs * sqrt ((real (length xs) - 1) / real (length xs))"
proof -
  have "real (length xs) - 1 \<noteq> 0" using assms by auto
  then show ?thesis
    unfolding population_std_dev_def sample_std_dev_def real_sqrt_mult [symmetric]
    by simp
qed

text \<open>
  Claim C3, amended. For a parameter set with \<open>S > 0\<close>, \<open>K > 0\<close>, \<open>sigma > 0\<close> and
  \<open>T > 0\<close>, a positive number of simulations and a seed that numpy accepts
  (\<open>0 \<le> seed < 2 ^ 32\<close>), \<open>simulate_paths\<close> returns that many terminal prices and
  \<open>monte_carlo_price\<close> returns the mean of their discounted payoffs (of a call, of a put)
  and, as the standard error, their population standard deviation (divisor \<open>n\<close>, not
  \<open>n - 1\<close>) divided by the square root of the number of simulations.
\<close>

theorem monte_carlo_price_estimate:
  assumes "0 < S p" "0 < K p" "0 < sigma p" "0 < T p"
    and "0 < n" and "0 \<le> seed" "seed < 2 ^ 32"
  shows "\<exists>ST g1. simulate_paths G p n seed g = (Inr ST, g1) \<and> length ST = nat n
     \<and> monte_carlo_price G p ''call'' n seed g =
         (Inr (Fin (spec_mean (map (spec_discounted_call p) ST)),
               Fin (population_std_dev (map (spec_discounted_call p) ST) / sqrt (real_of_int n))),
          g1)
     \<and> monte_carlo_price G p ''put'' n seed g =
         (Inr (Fin (spec_mean (map (spec_discounted_put p) ST)),
               Fin (population_std_dev (map (spec_discounted_put p) ST) / sqrt (real_of_int n))),
          g1)"
proof (intro exI conjI)
  show "simulate_paths G p n seed g = (Inr (fresh_samples G p n seed), state_after G n seed)"
    using assms by (simp add: simulate_paths_ok)
  show len: "length (fresh_samples G p n seed) = nat n"
    using assms by (simp add: fresh_samples_length)
  have ne: "fresh_samples G p n seed \<noteq> []"
    using len assms by auto
  show "monte_carlo_price G p ''call'' n seed g =
         (Inr (Fin (spec_mean (map (spec_discounted_call p) (fresh_samples G p n seed))),
               Fin (population_std_dev (map (spec_discounted_call p) (fresh_samples G p n seed))
                    / sqrt (real_of_int n))),
          state_after G n seed)"
    using assms ne
    by (simp add: monte_carlo_price_ok np_mean_nonempty np_std_nonempty np_divide_def
        spec_discounted_def)
  show "monte_carlo_price G p ''put'' n seed g =
         (Inr (Fin (spec_mean (map (spec_discounted_put p) (fresh_samples G p n seed))),
               Fin (population_std_dev (map (spec_discounted_put p) (fresh_samples G p n seed))
                    / sqrt (real_of_int n))),
          state_after G n seed)"
    using assms ne
    by (simp add: monte_carlo_price_ok np_mean_nonempty np_std_nonempty np_divide_def
        spec_discounted_def)
qed

lemma discounted_call_example:
  "spec_discounted_call example_params 1 = 0" "spec_discounted_call example_params 3 = 2"
  by (simp_all add: spec_discounted_call_def)

lemma discounted_put_example:
  "spec_discounted_put example_params 1 = 0" "spec_discounted_put example_params 3 = 0"
  by (simp_all add: spec_discounted_put_def)

lemma mean_example: "spec_mean [0, 2] = 1"
  by (simp add: spec_mean_def)

lemma population_std_dev_example: "population_std_dev [0, 2] = 1"
  by (simp add: population_std_dev_def mean_example)

lemma sample_std_dev_example: "sample_std_dev [0, 2] = sqrt 2"
  by (simp add: sample_std_dev_def mean_example)

lemma monte_carlo_price_example:
  "monte_carlo_price counter_generator example_params ''call'' 2 0 g = (Inr (Fin 1, Fin (1 / sqrt 2)), 2)"
  by (simp add: monte_carlo_price_ok fresh_samples_example state_after_example spec_discounted_def
      discounted_call_example np_mean_nonempty np_std_nonempty mean_example
      population_std_dev_example np_divide_def)

text \<open>The estimate for two simulations from seed \<open>0\<close> with the counter generator.\<close>

theorem monte_carlo_price_estimate_witness:
  "\<exists>ST g1. simulate_paths counter_generator example_params 2 0 (0::nat) = (Inr ST, g1) \<and> length ST = 2
     \<and> monte_carlo_price counter_generator example_params ''call'' 2 0 0 =
         (Inr (Fin (spec_mean (map (spec_discounted_call example_params) ST)),
               Fin (population_std_dev (map (spec_discounted_call example_params) ST) / sqrt 2)),
          g1)"
  using monte_carlo_price_estimate [where p = example_params and n = 2 and seed = 0 and G = counter_generator and g = 0]
  by (simp del: ex_simps) blast

text \<open>
  Claim C3 as stated fails. With the terminal prices \<open>[1, 3]\<close> the discounted call
  payoffs are \<open>[0, 2]\<close>: the returned standard error is \<open>1 / sqrt 2\<close>, while the
  Bessel-corrected sample standard deviation over \<open>sqrt 2\<close> is \<open>1\<close>. And a seed of
  \<open>2 ^ 32\<close> makes the call raise \<open>ValueError\<close>.
\<close>

theorem monte_carlo_standard_error_counterexample:
  "simulate_paths counter_generator example_params 2 0 (0::nat) = (Inr [1, 3], 2)
   \<and> monte_carlo_price counter_generator example_params ''call'' 2 0 0
       = (Inr (Fin 1, Fin (1 / sqrt 2)), 2)
   \<and> sample_std_dev (map (spec_discounted_call example_params) [1, 3]) / sqrt 2 = 1
   \<and> snd (projr (fst (monte_carlo_price counter_generator example_params ''call'' 2 0 0)))
       \<noteq> Fin (sample_std_dev (map (spec_discounted_call example_params) [1, 3]) / sqrt 2)
   \<and> fst (monte_carlo_price counter_generator example_params ''call'' 2 (2 ^ 32) (0::nat))
       = Inl ValueError"
proof (intro conjI)
  show "simulate_paths counter_generator example_params 2 0 (0::nat) = (Inr [1, 3], 2)"
    by (simp add: simulate_paths_ok fresh_samples_example state_after_example)
  show "monte_carlo_price counter_generator example_params ''call'' 2 0 0
       = (Inr (Fin 1, Fin (1 / sqrt 2)), 2)"
    by (rule monte_carlo_price_example)
  show b: "sample_std_dev (map (spec_discounted_call example_params) [1, 3]) / sqrt 2 = 1"
    by (simp add: discounted_call_example sample_std_dev_example)
  have "1 / sqrt 2 \<noteq> (1::real)" by simp
  then show "snd (projr (fst (monte_carlo_price counter_generator example_params ''call'' 2 0 0)))
       \<noteq> Fin (sample_std_dev (map (spec_discounted_call example_params) [1, 3]) / sqrt 2)"
    unfolding b monte_carlo_price_example by simp
  show "fst (monte_carlo_price counter_generator example_params ''call'' 2 (2 ^ 32) (0::nat))
       = Inl ValueError"
    by (simp add: monte_carlo_price_outcome)
qed

text \<open>
  Claim C6, amended. For a valid parameter set, a number of simulations that is not
  negative and a seed that numpy accepts, \<open>simulate_paths\<close> reseeds the process-wide
  generator and draws from it: the samples are those of a generator just seeded with
  \<open>seed\<close>, whatever the state before the call, and the process-wide state after
  \<open>simulate_paths\<close> and after \<open>monte_carlo_price\<close> is the state that seeding with
  \<open>seed\<close> and drawing \<open>n\<close> values leaves.
\<close>

theorem simulate_paths_reseeds_process_generator:
  assumes "0 < S p" "0 < K p" "0 < sigma p" "0 < T p"
    and "0 \<le> n" and "0 \<le> seed" "seed < 2 ^ 32"
  shows "simulate_paths G p n seed g = (Inr (fresh_samples G p n seed), state_after G n seed)
     \<and> snd (monte_carlo_price G p kind n seed g) = state_after G n seed"
  using assms by (simp add: simulate_paths_ok monte_carlo_price_ok)

text \<open>From the state \<open>7\<close> of the counter generator, two draws from seed \<open>0\<close> leave the state \<open>2\<close>.\<close>

theorem simulate_paths_reseeds_process_generator_witness:
  "simulate_paths counter_generator example_params 2 0 (7::nat) = (Inr [1, 3], 2)
     \<and> snd (monte_carlo_price counter_generator example_params ''put'' 2 0 (7::nat)) = 2"
  using simulate_paths_reseeds_process_generator [where p = example_params and n = 2 and seed = 0 and G = counter_generator
      and kind = "''put''" and g = 7]
  by (simp add: fresh_samples_example state_after_example)

text \<open>
  Claim C6 as stated fails: \<open>simulate_paths\<close> and \<open>monte_carlo_price\<close> change the state
  of the process-wide generator. And a call does not always seed and draw: the seed
  \<open>2 ^ 32\<close> raises \<open>ValueError\<close> and leaves the state as it was, and a negative number of
  simulations raises \<open>ValueError\<close> after the generator has been reseeded.
\<close>

theorem process_generator_modified_counterexample:
  "snd (simulate_paths counter_generator example_params 2 0 (7::nat)) \<noteq> 7
   \<and> snd (monte_carlo_price counter_generator example_params ''call'' 2 0 (7::nat)) \<noteq> 7
   \<and> simulate_paths counter_generator example_params 2 (2 ^ 32) (7::nat) = (Inl ValueError, 7)
   \<and> simulate_paths counter_generator example_params (- 1) 0 (7::nat) = (Inl ValueError, 0)"
  by (simp add: simulate_paths_ok monte_carlo_price_ok state_after_example)
     (simp add: simulate_paths_def np_random_seed_def np_random_randn_def)


section \<open>Invalid parameters and unrecognised kinds\<close>

lemma analytic_failure_None:
  "analytic_failure p = None \<longleftrightarrow> K p \<noteq> 0 \<and> 0 < S p / K p \<and> 0 < T p \<and> sigma p \<noteq> 0"
  by (auto simp: analytic_failure_def)

lemma d1_outcome: "d1 p = (case analytic_failure p of Some e \<Rightarrow> Inl e | None \<Rightarrow> Inr (spec_d1 p))"
  by (simp add: d1_def analytic_failure_def py_div_def py_log_def py_sqrt_def spec_d1_def)

lemma d1_fails: "analytic_failure p = Some e \<Longrightarrow> d1 p = Inl e"
  by (simp add: d1_outcome)

lemma d1_returns: "analytic_failure p = None \<Longrightarrow> d1 p = Inr (spec_d1 p)"
  by (simp add: d1_outcome)

lemma analytic_fails:
  assumes "analytic_failure p = Some e"
  shows "black_scholes_price p kind = Inl e" "delta p kind = Inl e" "gamma p = Inl e"
    "vega p = Inl e" "theta p kind = Inl e" "rho p kind = Inl e"
  using assms
  by (simp_all add: black_scholes_price_def call_price_def put_price_def delta_def gamma_def
      vega_def theta_def rho_def d2_def d1_fails)

lemma analytic_returns:
  assumes "analytic_failure p = None"
  shows "\<not> isl (black_scholes_price p kind)" "\<not> isl (delta p kind)" "\<not> isl (gamma p)"
    "\<not> isl (vega p)" "\<not> isl (theta p kind)" "\<not> isl (rho p kind)"
proof -
  from assms have v: "K p \<noteq> 0" "0 < S p / K p" "0 < T p" "sigma p \<noteq> 0"
    by (simp_all add: analytic_failure_None)
  then have s: "S p \<noteq> 0" by auto
  show "\<not> isl (black_scholes_price p kind)"
    using assms v
    by (simp add: black_scholes_price_def call_price_def put_price_def d2_def d1_returns py_sqrt_def)
  show "\<not> isl (delta p kind)"
    using assms by (simp add: delta_def d1_returns)
  show "\<not> isl (gamma p)"
    using assms v s by (simp add: gamma_def d1_returns py_sqrt_def py_div_def)
  show "\<not> isl (vega p)"
    using assms v by (simp add: vega_def d1_returns py_sqrt_def)
  show "\<not> isl (theta p kind)"
    using assms v by (simp add: theta_def d2_def d1_returns py_sqrt_def py_div_def Let_def)
  show "\<not> isl (rho p kind)"
    using assms v by (simp add: rho_def d2_def d1_returns py_sqrt_def)
qed

lemma analytic_failure_kinds:
  "analytic_failure p = None \<or> analytic_failure p = Some ZeroDivisionError
     \<or> analytic_failure p = Some ValueError"
  by (simp add: analytic_failure_def)

text \<open>
  Claim C4, amended. No operation validates its parameters and none ever fails with
  \<open>InvalidParameterError\<close>. The analytical price and the five sensitivities fail exactly
  when \<open>d1\<close> does, with the exception of \<open>analytic_failure\<close>: \<open>ZeroDivisionError\<close> when
  \<open>K = 0\<close>, or when \<open>S / K > 0\<close>, \<open>T \<ge> 0\<close> and \<open>sigma = 0\<close> or \<open>T = 0\<close>;
  \<open>ValueError\<close> when \<open>K \<noteq> 0\<close> and \<open>S / K \<le> 0\<close> or \<open>T < 0\<close>; otherwise (also for a
  negative \<open>sigma\<close>, or \<open>S\<close> and \<open>K\<close> both negative) they return a value.
  \<open>simulate_paths\<close> and \<open>monte_carlo_price\<close> raise \<open>ValueError\<close> when \<open>T < 0\<close> (or the
  seed or the number of simulations is rejected by numpy) and return a value otherwise,
  whatever \<open>S\<close>, \<open>K\<close> and \<open>sigma\<close>.
\<close>

theorem no_parameter_validation:
  "(case analytic_failure p of
      Some e \<Rightarrow>
        black_scholes_price p kind = Inl e \<and> delta p kind = Inl e \<and> gamma p = Inl e
        \<and> vega p = Inl e \<and> theta p kind = Inl e \<and> rho p kind = Inl e
    | None \<Rightarrow>
        \<not> isl (black_scholes_price p kind) \<and> \<not> isl (delta p kind) \<and> \<not> isl (gamma p)
        \<and> \<not> isl (vega p) \<and> \<not> isl (theta p kind) \<and> \<not> isl (rho p kind))
   \<and> analytic_failure p \<noteq> Some InvalidParameterError
   \<and> fst (simulate_paths G p n seed g) =
       (if 0 \<le> seed \<and> seed < 2 ^ 32 \<and> 0 \<le> n \<and> 0 \<le> T p then Inr (fresh_samples G p n seed)
        else Inl ValueError)
   \<and> fst (monte_carlo_price G p kind n seed g) =
       (if 0 \<le> seed \<and> seed < 2 ^ 32 \<and> 0 \<le> n \<and> 0 \<le> T p
        then Inr (np_mean (map (spec_discounted p kind) (fresh_samples G p n seed)),
                  np_divide (np_std (map (spec_discounted p kind) (fresh_samples G p n seed)))
                    (sqrt (real_of_int n)))
        else Inl ValueError)"
proof (intro conjI)
  show "case analytic_failure p of
      Some e \<Rightarrow>
        black_scholes_price p kind = Inl e \<and> delta p kind = Inl e \<and> gamma p = Inl e
        \<and> vega p = Inl e \<and> theta p kind = Inl e \<and> rho p kind = Inl e
    | None \<Rightarrow>
        \<not> isl (black_scholes_price p kind) \<and> \<not> isl (delta p kind) \<and> \<not> isl (gamma p)
        \<and> \<not> isl (vega p) \<and> \<not> isl (theta p kind) \<and> \<not> isl (rho p kind)"
    by (simp add: analytic_fails analytic_returns split: option.split)
  show "analytic_failure p \<noteq> Some InvalidParameterError"
    using analytic_failure_kinds [of p] by auto
  show "fst (simulate_paths G p n seed g) =
       (if 0 \<le> seed \<and> seed < 2 ^ 32 \<and> 0 \<le> n \<and> 0 \<le> T p then Inr (fresh_samples G p n seed)
        else Inl ValueError)"
    by (rule simulate_paths_outcome)
  show "fst (monte_carlo_price G p kind n seed g) =
       (if 0 \<le> seed \<and> seed < 2 ^ 32 \<and> 0 \<le> n \<and> 0 \<le> T p
        then Inr (np_mean (map (spec_discounted p kind) (fresh_samples G p n seed)),
                  np_divide (np_std (map (spec_discounted p kind) (fresh_samples G p n seed)))
                    (sqrt (real_of_int n)))
        else Inl ValueError)"
    by (rule monte_carlo_price_outcome)
qed

text \<open>The outcomes for \<open>sigma = 0\<close>, \<open>K = - 1\<close>, \<open>sigma = - 1\<close> and \<open>T = - 1\<close>.\<close>

theorem no_parameter_validation_witness:
  "black_scholes_price (example_params\<lparr>sigma := 0\<rparr>) ''put'' = Inl ZeroDivisionError
   \<and> gamma (example_params\<lparr>K := - 1\<rparr>) = Inl ValueError
   \<and> \<not> isl (rho (example_params\<lparr>sigma := - 1\<rparr>) ''call'')
   \<and> fst (simulate_paths counter_generator (example_params\<lparr>T := - 1\<rparr>) 2 0 (0::nat)) = Inl ValueError"
proof -
  have a: "analytic_failure (example_params\<lparr>sigma := 0\<rparr>) = Some ZeroDivisionError"
    "analytic_failure (example_params\<lparr>K := - 1\<rparr>) = Some ValueError"
    "analytic_failure (example_params\<lparr>sigma := - 1\<rparr>) = None"
    by (simp_all add: analytic_failure_def)
  have b: "black_scholes_price (example_params\<lparr>sigma := 0\<rparr>) ''put'' = Inl ZeroDivisionError"
    using no_parameter_validation [where p = "example_params\<lparr>sigma := 0\<rparr>" and kind = "''put''"
        and G = counter_generator and n = 2 and seed = 0 and g = 0]
    by (simp add: a)
  have c: "gamma (example_params\<lparr>K := - 1\<rparr>) = Inl ValueError"
    using no_parameter_validation [where p = "example_params\<lparr>K := - 1\<rparr>" and kind = "''put''"
        and G = counter_generator and n = 2 and seed = 0 and g = 0]
    by (simp add: a)
  have d: "\<not> isl (rho (example_params\<lparr>sigma := - 1\<rparr>) ''call'')"
    using no_parameter_validation [where p = "example_params\<lparr>sigma := - 1\<rparr>" and kind = "''call''"
        and G = counter_generator and n = 2 and seed = 0 and g = 0]
    by (simp add: a)
  have e: "fst (simulate_paths counter_generator (example_params\<lparr>T := - 1\<rparr>) 2 0 (0::nat)) = Inl ValueError"
    using no_parameter_validation [where p = "example_params\<lparr>T := - 1\<rparr>" and kind = "''call''"
        and G = counter_generator and n = 2 and seed = 0 and g = 0]
    by simp
  from b c d e show ?thesis by simp
qed

text \<open>
  Claim C4 as stated fails: with \<open>sigma = - 1\<close> the analytical price is returned, with
  \<open>sigma = 0\<close> it raises \<open>ZeroDivisionError\<close>, with \<open>S = - 1\<close> \<open>delta\<close> raises
  \<open>ValueError\<close>, with \<open>sigma = 0\<close> \<open>monte_carlo_price\<close> returns a value, and with
  \<open>T = - 1\<close> \<open>simulate_paths\<close> raises \<open>ValueError\<close>.
\<close>

theorem invalid_parameter_error_counterexample:
  "black_scholes_price (example_params\<lparr>sigma := - 1\<rparr>) ''call''
     = Inr (exp (- (1 / 2)) * (1 / 2) - std_norm_cdf 1)
   \<and> black_scholes_price (example_params\<lparr>sigma := 0\<rparr>) ''call'' = Inl ZeroDivisionError
   \<and> delta (example_params\<lparr>S := - 1\<rparr>) ''call'' = Inl ValueError
   \<and> \<not> isl (fst (monte_carlo_price counter_generator (example_params\<lparr>sigma := 0\<rparr>) ''call'' 2 0 (0::nat)))
   \<and> fst (simulate_paths counter_generator (example_params\<lparr>T := - 1\<rparr>) 2 0 (0::nat)) = Inl ValueError"
proof (intro conjI)
  have "analytic_failure (example_params\<lparr>sigma := - 1\<rparr>) = None"
    by (simp add: analytic_failure_def)
  then have "d1 (example_params\<lparr>sigma := - 1\<rparr>) = Inr 0"
    by (simp add: d1_returns spec_d1_def)
  then show "black_scholes_price (example_params\<lparr>sigma := - 1\<rparr>) ''call''
     = Inr (exp (- (1 / 2)) * (1 / 2) - std_norm_cdf 1)"
    by (simp add: black_scholes_price_def call_price_def d2_def py_sqrt_def std_norm_cdf_0)
  have "analytic_failure (example_params\<lparr>sigma := 0\<rparr>) = Some ZeroDivisionError"
    by (simp add: analytic_failure_def)
  then show "black_scholes_price (example_params\<lparr>sigma := 0\<rparr>) ''call'' = Inl ZeroDivisionError"
    by (rule analytic_fails)
  have "analytic_failure (example_params\<lparr>S := - 1\<rparr>) = Some ValueError"
    by (simp add: analytic_failure_def)
  then show "delta (example_params\<lparr>S := - 1\<rparr>) ''call'' = Inl ValueError"
    by (rule analytic_fails)
  show "\<not> isl (fst (monte_carlo_price counter_generator (example_params\<lparr>sigma := 0\<rparr>) ''call'' 2 0 (0::nat)))"
    by (simp add: monte_carlo_price_outcome)
  show "fst (simulate_paths counter_generator (example_params\<lparr>T := - 1\<rparr>) 2 0 (0::nat)) = Inl ValueError"
    by (simp add: simulate_paths_outcome)
qed


lemma error_kinds:
  "black_scholes_price p kind \<noteq> Inl UnsupportedOptionKindError"
  "delta p kind \<noteq> Inl UnsupportedOptionKindError"
  "theta p kind \<noteq> Inl UnsupportedOptionKindError"
  "rho p kind \<noteq> Inl UnsupportedOptionKindError"
proof -
  have "black_scholes_price p kind \<noteq> Inl UnsupportedOptionKindError
    \<and> delta p kind \<noteq> Inl UnsupportedOptionKindError
    \<and> theta p kind \<noteq> Inl UnsupportedOptionKindError
    \<and> rho p kind \<noteq> Inl UnsupportedOptionKindError"
  proof (cases "analytic_failure p")
    case None
    have "\<not> isl (black_scholes_price p kind)" "\<not> isl (delta p kind)"
      "\<not> isl (theta p kind)" "\<not> isl (rho p kind)"
      by (rule analytic_returns [OF None])+
    then show ?thesis by auto
  next
    case (Some e)
    with analytic_failure_kinds [of p] have "e \<noteq> UnsupportedOptionKindError" by auto
    with Some show ?thesis by (simp add: analytic_fails)
  qed
  then show "black_scholes_price p kind \<noteq> Inl UnsupportedOptionKindError"
    "delta p kind \<noteq> Inl UnsupportedOptionKindError"
    "theta p kind \<noteq> Inl UnsupportedOptionKindError"
    "rho p kind \<noteq> Inl UnsupportedOptionKindError"
    by simp_all
qed

lemma monte_carlo_error_kinds:
  "fst (monte_carlo_price G p kind n seed g) \<noteq> Inl UnsupportedOptionKindError"
  by (simp add: monte_carlo_price_outcome)

lemma spec_discounted_not_call: "kind \<noteq> ''call'' \<Longrightarrow> spec_discounted p kind = spec_discounted_put p"
  by (simp add: spec_discounted_def)

lemma d2_returns:
  assumes "analytic_failure p = None"
  shows "d2 p None = Inr (spec_d2 p)" "d2 p (Some (spec_d1 p)) = Inr (spec_d2 p)"
proof -
  from assms have "0 < T p" by (simp add: analytic_failure_None)
  then show "d2 p None = Inr (spec_d2 p)" "d2 p (Some (spec_d1 p)) = Inr (spec_d2 p)"
    using assms by (simp_all add: d2_def d1_returns spec_d2_def py_sqrt_def)
qed

lemma put_side_outcome:
  assumes "kind \<noteq> ''call''"
  shows "black_scholes_price p kind =
       (case analytic_failure p of
          Some e \<Rightarrow> Inl e
        | None \<Rightarrow> Inr (K p * exp (- r p * T p) * std_norm_cdf (- spec_d2 p)
                       - S p * exp (- q p * T p) * std_norm_cdf (- spec_d1 p)))"
    and "delta p kind =
       (case analytic_failure p of
          Some e \<Rightarrow> Inl e
        | None \<Rightarrow> Inr (- exp (- q p * T p) * std_norm_cdf (- spec_d1 p)))"
    and "theta p kind =
       (case analytic_failure p of
          Some e \<Rightarrow> Inl e
        | None \<Rightarrow>
            Inr (- (S p * exp (- q p * T p) * std_norm_pdf (spec_d1 p) * sigma p) / (2 * sqrt (T p))
                 + r p * K p * exp (- r p * T p) * std_norm_cdf (- spec_d2 p)
                 - q p * S p * exp (- q p * T p) * std_norm_cdf (- spec_d1 p)))"
    and "rho p kind =
       (case analytic_failure p of
          Some e \<Rightarrow> Inl e
        | None \<Rightarrow> Inr (- K p * T p * exp (- r p * T p) * std_norm_cdf (- spec_d2 p)))"
proof -
  show "black_scholes_price p kind =
       (case analytic_failure p of
          Some e \<Rightarrow> Inl e
        | None \<Rightarrow> Inr (K p * exp (- r p * T p) * std_norm_cdf (- spec_d2 p)
                       - S p * exp (- q p * T p) * std_norm_cdf (- spec_d1 p)))"
  proof (cases "analytic_failure p")
    case None
    with assms show ?thesis
      by (simp add: black_scholes_price_def put_price_def d1_returns d2_returns)
  next
    case (Some e)
    then show ?thesis by (simp add: analytic_fails)
  qed
  show "delta p kind =
       (case analytic_failure p of
          Some e \<Rightarrow> Inl e
        | None \<Rightarrow> Inr (- exp (- q p * T p) * std_norm_cdf (- spec_d1 p)))"
  proof (cases "analytic_failure p")
    case None
    with assms show ?thesis by (simp add: delta_def d1_returns)
  next
    case (Some e)
    then show ?thesis by (simp add: analytic_fails)
  qed
  show "theta p kind =
       (case analytic_failure p of
          Some e \<Rightarrow> Inl e
        | None \<Rightarrow>
            Inr (- (S p * exp (- q p * T p) * std_norm_pdf (spec_d1 p) * sigma p) / (2 * sqrt (T p))
                 + r p * K p * exp (- r p * T p) * std_norm_cdf (- spec_d2 p)
                 - q p * S p * exp (- q p * T p) * std_norm_cdf (- spec_d1 p)))"
  proof (cases "analytic_failure p")
    case None
    then have "0 < T p" by (simp add: analytic_failure_None)
    with None assms show ?thesis
      by (simp add: theta_def d1_returns d2_returns py_sqrt_def py_div_def)
  next
    case (Some e)
    then show ?thesis by (simp add: analytic_fails)
  qed
  show "rho p kind =
       (case analytic_failure p of
          Some e \<Rightarrow> Inl e
        | None \<Rightarrow> Inr (- K p * T p * exp (- r p * T p) * std_norm_cdf (- spec_d2 p)))"
  proof (cases "analytic_failure p")
    case None
    with assms show ?thesis by (simp add: rho_def d2_returns)
  next
    case (Some e)
    then show ?thesis by (simp add: analytic_fails)
  qed
qed

text \<open>
  Claim C10, amended. For every parameter set and every kind other than \<open>call\<close>,
  \<open>black_scholes_price\<close>, \<open>delta\<close>, \<open>theta\<close>, \<open>rho\<close> and \<open>monte_carlo_price\<close> behave
  exactly as for the kind \<open>put\<close>: they return the same value or raise the same exception
  (and leave the same generator state), and none of them fails on account of the kind.
  Where the parameters let \<open>d1\<close> return (\<open>analytic_failure\<close> is \<open>None\<close>, as on every
  valid parameter set) the four analytical functions return the put formulas, and
  otherwise they raise the exception of \<open>d1\<close>; \<open>monte_carlo_price\<close> returns the estimate
  of the put when numpy accepts the seed and the number of simulations and \<open>T \<ge> 0\<close>, and
  raises \<open>ValueError\<close> otherwise.
\<close>

theorem kind_other_than_call_is_put:
  assumes "kind \<noteq> ''call''"
  shows "black_scholes_price p kind = black_scholes_price p ''put''
     \<and> delta p kind = delta p ''put''
     \<and> theta p kind = theta p ''put''
     \<and> rho p kind = rho p ''put''
     \<and> monte_carlo_price G p kind n seed g = monte_carlo_price G p ''put'' n seed g
     \<and> black_scholes_price p kind \<noteq> Inl UnsupportedOptionKindError
     \<and> delta p kind \<noteq> Inl UnsupportedOptionKindError
     \<and> theta p kind \<noteq> Inl UnsupportedOptionKindError
     \<and> rho p kind \<noteq> Inl UnsupportedOptionKindError
     \<and> fst (monte_carlo_price G p kind n seed g) \<noteq> Inl UnsupportedOptionKindError
     \<and> black_scholes_price p kind =
          (case analytic_failure p of
             Some e \<Rightarrow> Inl e
           | None \<Rightarrow> Inr (K p * exp (- r p * T p) * std_norm_cdf (- spec_d2 p)
                          - S p * exp (- q p * T p) * std_norm_cdf (- spec_d1 p)))
     \<and> delta p kind =
          (case analytic_failure p of
             Some e \<Rightarrow> Inl e
           | None \<Rightarrow> Inr (- exp (- q p * T p) * std_norm_cdf (- spec_d1 p)))
     \<and> theta p kind =
          (case analytic_failure p of
             Some e \<Rightarrow> Inl e
           | None \<Rightarrow>
               Inr (- (S p * exp (- q p * T p) * std_norm_pdf (spec_d1 p) * sigma p) / (2 * sqrt (T p))
                    + r p * K p * exp (- r p * T p) * std_norm_cdf (- spec_d2 p)
                    - q p * S p * exp (- q p * T p) * std_norm_cdf (- spec_d1 p)))
     \<and> rho p kind =
          (case analytic_failure p of
             Some e \<Rightarrow> Inl e
           | None \<Rightarrow> Inr (- K p * T p * exp (- r p * T p) * std_norm_cdf (- spec_d2 p)))
     \<and> fst (monte_carlo_price G p kind n seed g) =
          (if 0 \<le> seed \<and> seed < 2 ^ 32 \<and> 0 \<le> n \<and> 0 \<le> T p
           then Inr (np_mean (map (spec_discounted_put p) (fresh_samples G p n seed)),
                     np_divide (np_std (map (spec_discounted_put p) (fresh_samples G p n seed)))
                       (sqrt (real_of_int n)))
           else Inl ValueError)"
proof (intro conjI)
  show "black_scholes_price p kind = black_scholes_price p ''put''"
    using assms by (simp add: black_scholes_price_def)
  show "delta p kind = delta p ''put''"
    using assms by (simp add: delta_def)
  show "theta p kind = theta p ''put''"
    using assms by (simp add: theta_def)
  show "rho p kind = rho p ''put''"
    using assms by (simp add: rho_def)
  have "spec_discounted p kind = spec_discounted p ''put''"
    using assms by (simp add: spec_discounted_def)
  then show "monte_carlo_price G p kind n seed g = monte_carlo_price G p ''put'' n seed g"
    unfolding monte_carlo_price_unfold by (simp split: prod.split sum.split)
  show "fst (monte_carlo_price G p kind n seed g) =
          (if 0 \<le> seed \<and> seed < 2 ^ 32 \<and> 0 \<le> n \<and> 0 \<le> T p
           then Inr (np_mean (map (spec_discounted_put p) (fresh_samples G p n seed)),
                     np_divide (np_std (map (spec_discounted_put p) (fresh_samples G p n seed)))
                       (sqrt (real_of_int n)))
           else Inl ValueError)"
    unfolding monte_carlo_price_outcome spec_discounted_not_call [OF assms] by (rule refl)
qed (rule error_kinds monte_carlo_error_kinds put_side_outcome [OF assms])+

text \<open>
  The kind \<open>banana\<close>: the put values at the example parameters, the exception of the put
  for \<open>sigma = 0\<close>, and for the strike \<open>5\<close> the put estimate of the terminal prices
  \<open>[1, 3]\<close>, whose call payoffs are zero.
\<close>

theorem kind_other_than_call_is_put_witness:
  "black_scholes_price example_params ''banana'' = Inr (std_norm_cdf 1 - exp (- (1 / 2)) * (1 / 2))
   \<and> delta example_params ''banana'' = Inr (- (exp (- (1 / 2)) * (1 / 2)))
   \<and> rho example_params ''banana'' = Inr (- std_norm_cdf 1)
   \<and> black_scholes_price (example_params\<lparr>sigma := 0\<rparr>) ''banana''
       = black_scholes_price (example_params\<lparr>sigma := 0\<rparr>) ''put''
   \<and> black_scholes_price (example_params\<lparr>sigma := 0\<rparr>) ''banana'' = Inl ZeroDivisionError
   \<and> fst (monte_carlo_price counter_generator (example_params\<lparr>K := 5\<rparr>) ''banana'' 2 0 (0::nat))
       = Inr (Fin 3, Fin (1 / sqrt 2))
   \<and> monte_carlo_price counter_generator (example_params\<lparr>K := 5\<rparr>) ''banana'' 2 0 (0::nat)
       = monte_carlo_price counter_generator (example_params\<lparr>K := 5\<rparr>) ''put'' 2 0 0"
proof -
  have k: "''banana'' \<noteq> ''call''" by simp
  have a: "analytic_failure example_params = None"
    "analytic_failure (example_params\<lparr>sigma := 0\<rparr>) = Some ZeroDivisionError"
    by (simp_all add: analytic_failure_def)
  have f: "fresh_samples counter_generator (example_params\<lparr>K := 5\<rparr>) 2 0 = [1, 3]"
    by (simp add: fresh_samples_def draws_counter_2 spec_terminal_price_def)
  have d: "spec_discounted_put (example_params\<lparr>K := 5\<rparr>) 1 = 4"
    "spec_discounted_put (example_params\<lparr>K := 5\<rparr>) 3 = 2"
    by (simp_all add: spec_discounted_put_def)
  have m: "np_mean [4, 2] = Fin 3" "np_divide (np_std [4, 2]) (sqrt 2) = Fin (1 / sqrt 2)"
    by (simp_all add: np_mean_def np_std_def np_divide_def)
  note t1 = kind_other_than_call_is_put [OF k, where p = example_params
      and G = counter_generator and n = 2 and seed = 0 and g = 0]
  note t2 = kind_other_than_call_is_put [OF k, where p = "example_params\<lparr>sigma := 0\<rparr>"
      and G = counter_generator and n = 2 and seed = 0 and g = 0]
  note t3 = kind_other_than_call_is_put [OF k, where p = "example_params\<lparr>K := 5\<rparr>"
      and G = counter_generator and n = 2 and seed = 0 and g = 0]
  note u1 = t1 [THEN conjunct2, THEN conjunct2, THEN conjunct2, THEN conjunct2, THEN conjunct2, THEN conjunct2, THEN conjunct2, THEN conjunct2, THEN conjunct2, THEN conjunct2]
  note u2 = t2 [THEN conjunct2, THEN conjunct2, THEN conjunct2, THEN conjunct2, THEN conjunct2, THEN conjunct2, THEN conjunct2, THEN conjunct2, THEN conjunct2, THEN conjunct2]
  note u3 = t3 [THEN conjunct2, THEN conjunct2, THEN conjunct2, THEN conjunct2, THEN conjunct2, THEN conjunct2, THEN conjunct2, THEN conjunct2, THEN conjunct2, THEN conjunct2]
  have 1: "black_scholes_price example_params ''banana''
      = Inr (std_norm_cdf 1 - exp (- (1 / 2)) * (1 / 2))"
    "delta example_params ''banana'' = Inr (- (exp (- (1 / 2)) * (1 / 2)))"
    "rho example_params ''banana'' = Inr (- std_norm_cdf 1)"
    using u1 by (simp_all add: a spec_d1_example_params spec_d2_example_params std_norm_cdf_0)
  have 2: "black_scholes_price (example_params\<lparr>sigma := 0\<rparr>) ''banana''
       = black_scholes_price (example_params\<lparr>sigma := 0\<rparr>) ''put''"
    "black_scholes_price (example_params\<lparr>sigma := 0\<rparr>) ''banana'' = Inl ZeroDivisionError"
    using t2 [THEN conjunct1] u2 by (simp_all add: a)
  have 3: "fst (monte_carlo_price counter_generator (example_params\<lparr>K := 5\<rparr>) ''banana'' 2 0 (0::nat))
       = Inr (Fin 3, Fin (1 / sqrt 2))"
    "monte_carlo_price counter_generator (example_params\<lparr>K := 5\<rparr>) ''banana'' 2 0 (0::nat)
       = monte_carlo_price counter_generator (example_params\<lparr>K := 5\<rparr>) ''put'' 2 0 0"
    using u3 [THEN conjunct2, THEN conjunct2, THEN conjunct2, THEN conjunct2]
      t3 [THEN conjunct2, THEN conjunct2, THEN conjunct2, THEN conjunct2, THEN conjunct1]
    by (simp_all add: f d m)
  from 1 2 3 show ?thesis by simp
qed

text \<open>
  Claim C10 as stated fails: for a kind other than \<open>call\<close> the functions do fail on
  parameter sets on which the put fails, with the exception of the put.
\<close>

theorem kind_other_than_call_fails_counterexample:
  "black_scholes_price (example_params\<lparr>sigma := 0\<rparr>) ''banana'' = Inl ZeroDivisionError
   \<and> delta (example_params\<lparr>S := - 1\<rparr>) ''banana'' = Inl ValueError
   \<and> theta (example_params\<lparr>T := 0\<rparr>) ''banana'' = Inl ZeroDivisionError
   \<and> rho (example_params\<lparr>K := 0\<rparr>) ''banana'' = Inl ZeroDivisionError
   \<and> fst (monte_carlo_price counter_generator (example_params\<lparr>T := - 1\<rparr>) ''banana'' 2 0 (0::nat))
       = Inl ValueError"
proof (intro conjI)
  have "analytic_failure (example_params\<lparr>sigma := 0\<rparr>) = Some ZeroDivisionError"
    by (simp add: analytic_failure_def)
  then show "black_scholes_price (example_params\<lparr>sigma := 0\<rparr>) ''banana'' = Inl ZeroDivisionError"
    by (rule analytic_fails)
  have "analytic_failure (example_params\<lparr>S := - 1\<rparr>) = Some ValueError"
    by (simp add: analytic_failure_def)
  then show "delta (example_params\<lparr>S := - 1\<rparr>) ''banana'' = Inl ValueError"
    by (rule analytic_fails)
  have "analytic_failure (example_params\<lparr>T := 0\<rparr>) = Some ZeroDivisionError"
    by (simp add: analytic_failure_def)
  then show "theta (example_params\<lparr>T := 0\<rparr>) ''banana'' = Inl ZeroDivisionError"
    by (rule analytic_fails)
  have "analytic_failure (example_params\<lparr>K := 0\<rparr>) = Some ZeroDivisionError"
    by (simp add: analytic_failure_def)
  then show "rho (example_params\<lparr>K := 0\<rparr>) ''banana'' = Inl ZeroDivisionError"
    by (rule analytic_fails)
  show "fst (monte_carlo_price counter_generator (example_params\<lparr>T := - 1\<rparr>) ''banana'' 2 0 (0::nat))
       = Inl ValueError"
    by (simp add: monte_carlo_price_outcome)
qed

text \<open>
  Claim C5, amended. For a valid parameter set and a kind that is neither \<open>call\<close> nor
  \<open>put\<close>, no operation fails: \<open>black_scholes_price\<close>, \<open>delta\<close>, \<open>theta\<close> and \<open>rho\<close>
  return the put formulas, and \<open>monte_carlo_price\<close> (for a positive number of simulations
  and a seed that numpy accepts) returns the estimate of the put.
\<close>

theorem unrecognised_kind_priced_as_put:
  assumes "0 < S p" "0 < K p" "0 < sigma p" "0 < T p"
    and "kind \<noteq> ''call''" "kind \<noteq> ''put''"
    and "0 < n" "0 \<le> seed" "seed < 2 ^ 32"
  shows "black_scholes_price p kind =
           Inr (K p * exp (- r p * T p) * std_norm_cdf (- spec_d2 p)
                - S p * exp (- q p * T p) * std_norm_cdf (- spec_d1 p))
     \<and> delta p kind = Inr (- exp (- q p * T p) * std_norm_cdf (- spec_d1 p))
     \<and> theta p kind =
           Inr (- (S p * exp (- q p * T p) * std_norm_pdf (spec_d1 p) * sigma p) / (2 * sqrt (T p))
                + r p * K p * exp (- r p * T p) * std_norm_cdf (- spec_d2 p)
                - q p * S p * exp (- q p * T p) * std_norm_cdf (- spec_d1 p))
     \<and> rho p kind = Inr (- K p * T p * exp (- r p * T p) * std_norm_cdf (- spec_d2 p))
     \<and> monte_carlo_price G p kind n seed g =
         (Inr (Fin (spec_mean (map (spec_discounted_put p) (fresh_samples G p n seed))),
               Fin (population_std_dev (map (spec_discounted_put p) (fresh_samples G p n seed))
                    / sqrt (real_of_int n))),
          state_after G n seed)"
proof (intro conjI)
  show "black_scholes_price p kind =
           Inr (K p * exp (- r p * T p) * std_norm_cdf (- spec_d2 p)
                - S p * exp (- q p * T p) * std_norm_cdf (- spec_d1 p))"
    using assms by (simp add: black_scholes_price_def put_price_def d1_valid d2_valid)
  show "delta p kind = Inr (- exp (- q p * T p) * std_norm_cdf (- spec_d1 p))"
    using assms by (simp add: delta_def d1_valid)
  show "theta p kind =
           Inr (- (S p * exp (- q p * T p) * std_norm_pdf (spec_d1 p) * sigma p) / (2 * sqrt (T p))
                + r p * K p * exp (- r p * T p) * std_norm_cdf (- spec_d2 p)
                - q p * S p * exp (- q p * T p) * std_norm_cdf (- spec_d1 p))"
    using assms by (simp add: theta_def d1_valid d2_valid py_sqrt_def py_div_def)
  show "rho p kind = Inr (- K p * T p * exp (- r p * T p) * std_norm_cdf (- spec_d2 p))"
    using assms by (simp add: rho_def d2_valid)
  have "length (fresh_samples G p n seed) = nat n"
    using assms by (simp add: fresh_samples_length)
  then have ne: "fresh_samples G p n seed \<noteq> []"
    using assms by auto
  show "monte_carlo_price G p kind n seed g =
         (Inr (Fin (spec_mean (map (spec_discounted_put p) (fresh_samples G p n seed))),
               Fin (population_std_dev (map (spec_discounted_put p) (fresh_samples G p n seed))
                    / sqrt (real_of_int n))),
          state_after G n seed)"
    using assms ne
    by (simp add: monte_carlo_price_ok np_mean_nonempty np_std_nonempty np_divide_def
        spec_discounted_not_call)
qed

text \<open>The kind \<open>banana\<close> is priced as a put at the example parameters.\<close>

theorem unrecognised_kind_priced_as_put_witness:
  "black_scholes_price example_params ''banana'' = Inr (std_norm_cdf 1 - exp (- (1 / 2)) * (1 / 2))
   \<and> delta example_params ''banana'' = Inr (- (exp (- (1 / 2)) * (1 / 2)))
   \<and> rho example_params ''banana'' = Inr (- std_norm_cdf 1)
   \<and> monte_carlo_price counter_generator example_params ''banana'' 2 0 (0::nat)
       = (Inr (Fin 0, Fin 0), 2)"
  using unrecognised_kind_priced_as_put [where kind = "''banana''" and p = example_params
      and G = counter_generator and n = 2 and seed = 0 and g = 0]
  by (simp add: spec_d1_example_params spec_d2_example_params std_norm_cdf_0
      fresh_samples_example state_after_example discounted_put_example spec_mean_def
      population_std_dev_def)

text \<open>
  Claim C5 as stated fails: for the kind \<open>banana\<close> the operations return the values of
  a put and raise nothing.
\<close>

theorem unsupported_kind_error_counterexample:
  "black_scholes_price example_params ''banana'' = Inr (std_norm_cdf 1 - exp (- (1 / 2)) * (1 / 2))
   \<and> delta example_params ''banana'' = Inr (- (exp (- (1 / 2)) * (1 / 2)))
   \<and> fst (monte_carlo_price counter_generator example_params ''banana'' 2 0 (0::nat))
       = Inr (Fin 0, Fin 0)
   \<and> black_scholes_price example_params ''banana'' \<noteq> Inl UnsupportedOptionKindError
   \<and> fst (monte_carlo_price counter_generator example_params ''banana'' 2 0 (0::nat))
       \<noteq> Inl UnsupportedOptionKindError"
proof -
  have v: "0 < S example_params" "0 < K example_params" "0 < sigma example_params"
    "0 < T example_params"
    by simp_all
  have a: "black_scholes_price example_params ''banana''
      = Inr (std_norm_cdf 1 - exp (- (1 / 2)) * (1 / 2))"
    by (simp add: black_scholes_price_def put_price_def d1_valid [OF v] d2_def py_sqrt_def
        spec_d1_example_params std_norm_cdf_0)
  have b: "delta example_params ''banana'' = Inr (- (exp (- (1 / 2)) * (1 / 2)))"
    by (simp add: delta_def d1_valid [OF v] spec_d1_example_params std_norm_cdf_0)
  have c: "fst (monte_carlo_price counter_generator example_params ''banana'' 2 0 (0::nat))
       = Inr (Fin 0, Fin 0)"
    by (simp add: monte_carlo_price_outcome fresh_samples_example spec_discounted_def
        discounted_put_example np_mean_def np_std_def np_divide_def)
  from a b c show ?thesis by simp
qed


section \<open>The convergence comparison\<close>

lemma monte_carlo_price_seed_42:
  assumes "0 \<le> n" "0 \<le> T p"
  shows "monte_carlo_price G p kind n 42 g =
     (Inr (estimate_price G p kind n 42, estimate_error G p kind n 42), state_after G n 42)"
  using assms by (simp add: monte_carlo_price_ok estimate_price_def estimate_error_def)

lemma mc_loop_ok:
  assumes "0 \<le> T p" "\<forall>n\<in>set ns. 0 \<le> n"
  shows "mc_loop G p kind ns mc_prices mc_errors g calls =
     (Inr (mc_prices @ map (\<lambda>n. estimate_price G p kind n 42) ns,
           mc_errors @ map (\<lambda>n. estimate_error G p kind n 42) ns),
      (if ns = [] then g else state_after G (last ns) 42),
      calls @ map Call_monte_carlo_price ns)"
  using assms(2)
proof (induction ns arbitrary: mc_prices mc_errors g calls)
  case Nil
  show ?case by simp
next
  case (Cons n ns)
  then have n: "0 \<le> n" and ns: "\<forall>n\<in>set ns. 0 \<le> n" by simp_all
  show ?case
    by (simp add: monte_carlo_price_seed_42 [OF n assms(1)] Cons.IH [OF ns])
qed

lemma count_monte_carlo_calls:
  "count_list (map Call_monte_carlo_price ns) Call_black_scholes_price = 0"
  by (induction ns) simp_all

lemma compare_mc_vs_bs_ok:
  assumes "black_scholes_price p kind = Inr bs" "0 \<le> T p" "\<forall>n\<in>set ns. 0 \<le> n"
  shows "compare_mc_vs_bs G p kind ns g =
     (Inr (Float bs,
           Array (map (\<lambda>n. estimate_price G p kind n 42) ns),
           Array (map (\<lambda>n. estimate_error G p kind n 42) ns),
           Array (map (\<lambda>n. np_subtract (estimate_price G p kind n 42) bs) ns)),
      (if ns = [] then g else state_after G (last ns) 42),
      Call_black_scholes_price # map Call_monte_carlo_price ns)"
  using assms by (simp add: compare_mc_vs_bs_def mc_loop_ok comp_def)

lemma estimate_price_finite:
  assumes "0 < n"
  shows "estimate_price G p kind n seed
    = Fin (spec_mean (map (spec_discounted p kind) (fresh_samples G p n seed)))"
proof -
  have "length (fresh_samples G p n seed) = nat n"
    using assms by (simp add: fresh_samples_length)
  with assms have "fresh_samples G p n seed \<noteq> []" by auto
  then show ?thesis by (simp add: estimate_price_def np_mean_nonempty)
qed

text \<open>
  Claim C9, amended. For a valid parameter set, any kind and a list of positive sample
  counts, \<open>compare_mc_vs_bs\<close> calls \<open>black_scholes_price\<close> exactly once, before the loop,
  and then \<open>monte_carlo_price\<close> once per sample count in the order of the list. It returns
  the analytical price itself, as a float, and three arrays of the length of the list:
  the Monte Carlo prices and the standard errors, entry \<open>i\<close> being the result of
  \<open>monte_carlo_price\<close> for the \<open>i\<close>-th sample count with seed \<open>42\<close>, and the biases,
  entry \<open>i\<close> being the \<open>i\<close>-th price minus the analytical price. The sample counts are not
  returned.
\<close>

theorem compare_mc_vs_bs_series:
  assumes "0 < S p" "0 < K p" "0 < sigma p" "0 < T p"
    and "\<forall>n\<in>set ns. 0 < n"
  shows "\<exists>bs mc_prices mc_errors biases g1 calls.
       compare_mc_vs_bs G p kind ns g =
         (Inr (Float bs, Array mc_prices, Array mc_errors, Array biases), g1, calls)
     \<and> black_scholes_price p kind = Inr bs
     \<and> calls = Call_black_scholes_price # map Call_monte_carlo_price ns
     \<and> count_list calls Call_black_scholes_price = 1
     \<and> length mc_prices = length ns \<and> length mc_errors = length ns
     \<and> length biases = length ns
     \<and> returned_lengths (fst (compare_mc_vs_bs G p kind ns g))
           = [None, Some (length ns), Some (length ns), Some (length ns)]
     \<and> (\<forall>i<length ns. \<forall>g'. fst (monte_carlo_price G p kind (ns ! i) 42 g')
            = Inr (mc_prices ! i, mc_errors ! i))
     \<and> (\<forall>i<length ns. \<exists>x. mc_prices ! i = Fin x \<and> biases ! i = Fin (x - bs))"
proof -
  have "\<exists>bs. black_scholes_price p kind = Inr bs"
    using assms(1-4)
    by (simp add: black_scholes_price_def call_price_def put_price_def d1_valid d2_valid)
  then obtain bs where bs: "black_scholes_price p kind = Inr bs" ..
  have t: "0 \<le> T p" using assms(4) by simp
  have ns: "\<forall>n\<in>set ns. 0 \<le> n" using assms(5) by auto
  let ?P = "map (\<lambda>n. estimate_price G p kind n 42) ns"
  let ?E = "map (\<lambda>n. estimate_error G p kind n 42) ns"
  let ?B = "map (\<lambda>n. np_subtract (estimate_price G p kind n 42) bs) ns"
  let ?C = "Call_black_scholes_price # map Call_monte_carlo_price ns"
  have a: "compare_mc_vs_bs G p kind ns g =
      (Inr (Float bs, Array ?P, Array ?E, Array ?B),
       (if ns = [] then g else state_after G (last ns) 42), ?C)"
    by (rule compare_mc_vs_bs_ok [OF bs t ns])
  have c: "count_list ?C Call_black_scholes_price = 1"
    by (simp add: count_monte_carlo_calls)
  have m: "\<forall>i<length ns. \<forall>g'. fst (monte_carlo_price G p kind (ns ! i) 42 g') = Inr (?P ! i, ?E ! i)"
  proof (intro allI impI)
    fix i g' assume i: "i < length ns"
    then have "0 \<le> ns ! i" using ns by simp
    then show "fst (monte_carlo_price G p kind (ns ! i) 42 g') = Inr (?P ! i, ?E ! i)"
      using i t by (simp add: monte_carlo_price_seed_42)
  qed
  have b: "\<forall>i<length ns. \<exists>x. ?P ! i = Fin x \<and> ?B ! i = Fin (x - bs)"
  proof (intro allI impI)
    fix i assume i: "i < length ns"
    then have "0 < ns ! i" using assms(5) by simp
    then show "\<exists>x. ?P ! i = Fin x \<and> ?B ! i = Fin (x - bs)"
      using i by (simp add: estimate_price_finite np_subtract_def)
  qed
  have l: "returned_lengths (fst (compare_mc_vs_bs G p kind ns g))
           = [None, Some (length ns), Some (length ns), Some (length ns)]"
    unfolding a by (simp add: returned_lengths_def sequence_length_def)
  from a bs c m b l show ?thesis
    by (intro exI conjI) (assumption | simp)+
qed


lemma draws_counter_1: "draws counter_generator 1 g = ([1 + ln (1 + 2 * real g)], Suc g)"
  by simp

lemma fresh_samples_seed_42:
  "fresh_samples counter_generator example_params 1 42 = [85]"
  "fresh_samples counter_generator example_params 2 42 = [85, 87]"
  by (simp_all add: fresh_samples_def draws_counter_1 draws_counter_2 spec_terminal_price_def)

lemma state_after_seed_42: "state_after counter_generator 2 42 = 44"
  by (simp add: state_after_def draws_counter_2)

lemma estimates_seed_42:
  "estimate_price counter_generator example_params ''call'' 1 42 = Fin 84"
  "estimate_error counter_generator example_params ''call'' 1 42 = Fin 0"
  "estimate_price counter_generator example_params ''call'' 2 42 = Fin 85"
  "estimate_error counter_generator example_params ''call'' 2 42 = Fin (1 / sqrt 2)"
  by (simp_all add: estimate_price_def estimate_error_def fresh_samples_seed_42
      spec_discounted_def spec_discounted_call_def np_mean_def np_std_def np_divide_def)

lemma black_scholes_price_example:
  "black_scholes_price example_params ''call'' = Inr (exp (- (1 / 2)) * (1 / 2) - std_norm_cdf (- 1))"
proof -
  have v: "0 < S example_params" "0 < K example_params" "0 < sigma example_params"
    "0 < T example_params"
    by simp_all
  show ?thesis
    by (simp add: black_scholes_price_def call_price_def d1_valid [OF v] d2_def py_sqrt_def
        spec_d1_example_params std_norm_cdf_0)
qed

lemma compare_mc_vs_bs_example:
  "compare_mc_vs_bs counter_generator example_params ''call'' [1, 2] g =
     (Inr (Float (exp (- (1 / 2)) * (1 / 2) - std_norm_cdf (- 1)),
           Array [Fin 84, Fin 85],
           Array [Fin 0, Fin (1 / sqrt 2)],
           Array [Fin (84 - (exp (- (1 / 2)) * (1 / 2) - std_norm_cdf (- 1))),
                  Fin (85 - (exp (- (1 / 2)) * (1 / 2) - std_norm_cdf (- 1)))]),
      44, [Call_black_scholes_price, Call_monte_carlo_price 1, Call_monte_carlo_price 2])"
  by (simp add: compare_mc_vs_bs_ok [OF black_scholes_price_example] estimates_seed_42
      state_after_seed_42 np_subtract_def)

text \<open>The comparison for the sample counts \<open>[1, 2]\<close> with the counter generator.\<close>

theorem compare_mc_vs_bs_series_witness:
  "fst (monte_carlo_price counter_generator example_params ''call'' 1 42 (7::nat)) = Inr (Fin 84, Fin 0)
   \<and> fst (monte_carlo_price counter_generator example_params ''call'' 2 42 (7::nat))
       = Inr (Fin 85, Fin (1 / sqrt 2))
   \<and> returned_lengths (fst (compare_mc_vs_bs counter_generator example_params ''call'' [1, 2] (0::nat)))
       = [None, Some 2, Some 2, Some 2]"
proof -
  have v: "0 < S example_params" "0 < K example_params" "0 < sigma example_params"
    "0 < T example_params" "\<forall>n\<in>set [1, 2 :: int]. 0 < n"
    by simp_all
  from compare_mc_vs_bs_series [OF v, of counter_generator "''call''" 0]
  obtain bs mc_prices mc_errors biases g1 calls where
    a: "compare_mc_vs_bs counter_generator example_params ''call'' [1, 2] (0::nat) =
         (Inr (Float bs, Array mc_prices, Array mc_errors, Array biases), g1, calls)"
    and l: "returned_lengths (fst (compare_mc_vs_bs counter_generator example_params ''call'' [1, 2] (0::nat)))
           = [None, Some (length [1, 2 :: int]), Some (length [1, 2 :: int]), Some (length [1, 2 :: int])]"
    and m: "\<forall>i<length [1, 2 :: int]. \<forall>g'. fst (monte_carlo_price counter_generator example_params
              ''call'' ([1, 2] ! i) 42 g') = Inr (mc_prices ! i, mc_errors ! i)"
    by blast
  from a have p: "mc_prices = [Fin 84, Fin 85]" "mc_errors = [Fin 0, Fin (1 / sqrt 2)]"
    by (simp_all add: compare_mc_vs_bs_example)
  from m [rule_format, of 0 7]
  have "fst (monte_carlo_price counter_generator example_params ''call'' ([1, 2] ! 0) 42 (7::nat))
      = Inr (mc_prices ! 0, mc_errors ! 0)"
    by simp
  moreover from m [rule_format, of 1 7]
  have "fst (monte_carlo_price counter_generator example_params ''call'' ([1, 2] ! 1) 42 (7::nat))
      = Inr (mc_prices ! 1, mc_errors ! 1)"
    by simp
  ultimately show ?thesis using l by (simp add: p)
qed

text \<open>
  Claim C9 as stated fails: the first of the four returned values is the analytical price,
  a float, so only three of them are sequences of the length of the input.
\<close>

theorem compare_mc_vs_bs_return_counterexample:
  "fst (compare_mc_vs_bs counter_generator example_params ''call'' [1, 2] (0::nat)) =
     Inr (Float (exp (- (1 / 2)) * (1 / 2) - std_norm_cdf (- 1)),
          Array [Fin 84, Fin 85],
          Array [Fin 0, Fin (1 / sqrt 2)],
          Array [Fin (84 - (exp (- (1 / 2)) * (1 / 2) - std_norm_cdf (- 1))),
                 Fin (85 - (exp (- (1 / 2)) * (1 / 2) - std_norm_cdf (- 1)))])
   \<and> returned_lengths (fst (compare_mc_vs_bs counter_generator example_params ''call'' [1, 2] (0::nat)))
       = [None, Some 2, Some 2, Some 2]
   \<and> returned_lengths (fst (compare_mc_vs_bs counter_generator example_params ''call'' [1, 2] (0::nat)))
       \<noteq> [Some 2, Some 2, Some 2, Some 2]"
  by (simp add: compare_mc_vs_bs_example returned_lengths_def sequence_length_def)

end
